theory Spec2Isabelle
  imports Complex_Main "HOL-Library.List_Lexorder" "HOL-Library.AList"
begin

section \<open>Python text: code points, character classes, regular expressions\<close>

text \<open>
  A Python \<^verbatim>\<open>str\<close> is a sequence of Unicode code points, so a string is a list of
  naturals; \<open>str\<close> turns an ASCII literal into that form.
\<close>

type_synonym pystr = "nat list"

definition str :: "string \<Rightarrow> pystr" where
  "str s = map of_char s"

text \<open>
  \<^verbatim>\<open>\s\<close>, \<^verbatim>\<open>str.strip()\<close> and \<^verbatim>\<open>str.split()\<close> all use CPython's whitespace test, which is
  true for exactly these code points: U+0009..U+000D, U+001C..U+0020, U+0085, U+00A0,
  U+1680, U+2000..U+200A, U+2028, U+2029, U+202F, U+205F and U+3000.
\<close>

definition is_space :: "nat \<Rightarrow> bool" where
  "is_space c = ((9 \<le> c \<and> c \<le> 13) \<or> (28 \<le> c \<and> c \<le> 32) \<or> c = 133 \<or> c = 160
     \<or> c = 5760 \<or> (8192 \<le> c \<and> c \<le> 8202) \<or> c = 8232 \<or> c = 8233 \<or> c = 8239
     \<or> c = 8287 \<or> c = 12288)"

definition is_nl :: "nat \<Rightarrow> bool" where
  "is_nl c = (c = 10)"

definition is_hyphen :: "nat \<Rightarrow> bool" where
  "is_hyphen c = (c = 45)"

text \<open>
  The classes \<^verbatim>\<open>\w\<close> and \<^verbatim>\<open>\d\<close> and the method \<^verbatim>\<open>str.lower()\<close> are written out for
  ASCII. Beyond ASCII they read the interpreter's Unicode tables, which are no part of the
  repository: those tables are a parameter of the model. \<open>u_lower\<close> is applied to a whole
  string, since lower-casing outside ASCII is neither one-to-one nor context free.
\<close>

record unicode_db =
  u_alnum :: "nat \<Rightarrow> bool"
  u_decimal :: "nat \<Rightarrow> bool"
  u_lower :: "pystr \<Rightarrow> pystr"

definition is_ascii :: "nat \<Rightarrow> bool" where
  "is_ascii c = (c < 128)"

definition ascii_digit :: "nat \<Rightarrow> bool" where
  "ascii_digit c = (48 \<le> c \<and> c \<le> 57)"

definition ascii_upper :: "nat \<Rightarrow> bool" where
  "ascii_upper c = (65 \<le> c \<and> c \<le> 90)"

definition ascii_lower :: "nat \<Rightarrow> bool" where
  "ascii_lower c = (97 \<le> c \<and> c \<le> 122)"

definition is_digit :: "unicode_db \<Rightarrow> nat \<Rightarrow> bool" where
  "is_digit U c = (if is_ascii c then ascii_digit c else u_decimal U c)"

definition is_word :: "unicode_db \<Rightarrow> nat \<Rightarrow> bool" where
  "is_word U c =
     (if is_ascii c then ascii_digit c \<or> ascii_upper c \<or> ascii_lower c \<or> c = 95
      else u_alnum U c)"

definition lower_char :: "nat \<Rightarrow> nat" where
  "lower_char c = (if ascii_upper c then c + 32 else c)"

definition lower :: "unicode_db \<Rightarrow> pystr \<Rightarrow> pystr" where
  "lower U s = (if list_all is_ascii s then map lower_char s else u_lower U s)"

definition strip :: "pystr \<Rightarrow> pystr" where
  "strip s = rev (dropWhile is_space (rev (dropWhile is_space s)))"

text \<open>
  \<^verbatim>\<open>str.split()\<close> with no argument: the maximal runs of non-whitespace, in order.
\<close>

fun split_from :: "pystr \<Rightarrow> pystr \<Rightarrow> pystr list" where
  "split_from w [] = (if w = [] then [] else [rev w])"
| "split_from w (c # cs) =
     (if is_space c then (if w = [] then split_from [] cs else rev w # split_from [] cs)
      else split_from (c # w) cs)"

definition split :: "pystr \<Rightarrow> pystr list" where
  "split s = split_from [] s"

subsection \<open>The fragment of \<^verbatim>\<open>re\<close> the program uses\<close>

text \<open>
  Every pattern in the program is a sequence of character classes, each taken once, or
  under a greedy \<^verbatim>\<open>*\<close> or \<^verbatim>\<open>+\<close>. \<open>re_match\<close> is the backtracking matcher anchored at the
  start of the text: a greedy repetition first tries to take one more character and falls
  back to the rest of the pattern only when that fails. It returns the text left after
  the match.
\<close>

datatype item = One_of "nat \<Rightarrow> bool" | Star_of "nat \<Rightarrow> bool" | Plus_of "nat \<Rightarrow> bool"

fun re_match :: "item list \<Rightarrow> pystr \<Rightarrow> pystr option" where
  "re_match [] s = Some s"
| "re_match (One_of p # r) [] = None"
| "re_match (One_of p # r) (c # cs) = (if p c then re_match r cs else None)"
| "re_match (Plus_of p # r) [] = None"
| "re_match (Plus_of p # r) (c # cs) = (if p c then re_match (Star_of p # r) cs else None)"
| "re_match (Star_of p # r) [] = re_match r []"
| "re_match (Star_of p # r) (c # cs) =
     (if p c
      then (case re_match (Star_of p # r) cs of
              Some t \<Rightarrow> Some t
            | None \<Rightarrow> re_match r (c # cs))
      else re_match r (c # cs))"

text \<open>
  \<^verbatim>\<open>re.sub(pattern, repl, text)\<close>: scan from the left; where the pattern matches, emit the
  replacement and go on after the match; elsewhere copy the character. An empty match
  emits the replacement and copies the character (Python 3.7 and later); no pattern of
  the program can match the empty string.
\<close>

fun re_sub :: "item list \<Rightarrow> pystr \<Rightarrow> pystr \<Rightarrow> pystr" where
  "re_sub pat repl [] = (case re_match pat [] of Some t \<Rightarrow> repl | None \<Rightarrow> [])"
| "re_sub pat repl (c # cs) =
     (case re_match pat (c # cs) of
        None \<Rightarrow> c # re_sub pat repl cs
      | Some t \<Rightarrow>
          if length t < length (c # cs) then repl @ re_sub pat repl t
          else repl @ c # re_sub pat repl cs)"

section \<open>Text normalizer: \<^verbatim>\<open>BookProcessor._clean_text\<close>\<close>

definition collapse_whitespace :: "pystr \<Rightarrow> pystr" where
  "collapse_whitespace text = re_sub [Plus_of is_space] (str '' '') text"

definition remove_page_numbers :: "unicode_db \<Rightarrow> pystr \<Rightarrow> pystr" where
  "remove_page_numbers U text =
     re_sub [One_of is_nl, Star_of is_space, Plus_of (is_digit U), Star_of is_space, One_of is_nl]
       (str ''\<newline>'') text"

definition clean_paragraph_breaks :: "pystr \<Rightarrow> pystr" where
  "clean_paragraph_breaks text =
     re_sub [One_of is_nl, Star_of is_space, One_of is_nl] (str ''\<newline>\<newline>'') text"

definition clean_text :: "unicode_db \<Rightarrow> pystr \<Rightarrow> pystr" where
  "clean_text U text =
     strip (clean_paragraph_breaks (remove_page_numbers U (collapse_whitespace text)))"

text \<open>
  The normalizer with its second step deleted, for comparison with \<open>clean_text\<close>.
\<close>

definition clean_text_without_page_step :: "pystr \<Rightarrow> pystr" where
  "clean_text_without_page_step text =
     strip (clean_paragraph_breaks (collapse_whitespace text))"

section \<open>Chapter extractor: \<^verbatim>\<open>BookProcessor.extract_epub_content\<close>\<close>

text \<open>
  \<^verbatim>\<open>f"{n:0wd}"\<close>: the decimal digits of \<open>n\<close>, filled with zeros on the left up to width
  \<open>w\<close>; the sign of a negative number counts towards the width.
\<close>

fun digits :: "nat \<Rightarrow> pystr" where
  "digits n = (if n < 10 then [48 + n] else digits (n div 10) @ [48 + n mod 10])"

declare digits.simps [simp del]

definition zfill :: "nat \<Rightarrow> pystr \<Rightarrow> pystr" where
  "zfill w s = replicate (w - length s) 48 @ s"

definition format_d :: "nat \<Rightarrow> int \<Rightarrow> pystr" where
  "format_d w n =
     (if n < 0 then 45 # zfill (w - 1) (digits (nat (- n))) else zfill w (digits (nat n)))"

text \<open>
  What the program reads from the EPUB and HTML parsers for one item of the book: its
  type, the text of the parsed document (\<^verbatim>\<open>soup.get_text()\<close>), and the text of the first
  \<^verbatim>\<open>h1\<close>, \<^verbatim>\<open>h2\<close>, \<^verbatim>\<open>h3\<close> or \<^verbatim>\<open>title\<close> element when there is one.
\<close>

datatype item_kind = ITEM_DOCUMENT | ITEM_OTHER

record epub_item =
  item_type :: item_kind
  soup_text :: pystr
  soup_heading :: "pystr option"

text \<open>
  A chapter is a dictionary with the keys \<^verbatim>\<open>number\<close>, \<^verbatim>\<open>title\<close>, \<^verbatim>\<open>filename\<close>,
  \<^verbatim>\<open>content\<close> and \<^verbatim>\<open>word_count\<close>; an entry of the table of contents has the same keys
  but for \<^verbatim>\<open>content\<close>. The chapter record therefore extends the summary record.
\<close>

record chapter_summary =
  number :: int
  title :: pystr
  filename :: pystr
  word_count :: int

record book_chapter = chapter_summary +
  content :: pystr

definition clean_title :: "unicode_db \<Rightarrow> pystr \<Rightarrow> pystr" where
  "clean_title U t =
     re_sub [Plus_of (\<lambda>c. is_hyphen c \<or> is_space c)] (str ''-'')
       (re_sub [One_of (\<lambda>c. \<not> (is_word U c \<or> is_space c \<or> is_hyphen c))] [] t)"

definition chapter_filename :: "unicode_db \<Rightarrow> int \<Rightarrow> pystr \<Rightarrow> pystr" where
  "chapter_filename U chapter_num t =
     format_d 2 chapter_num @ str ''-'' @ lower U (clean_title U t)"

text \<open>
  One turn of the loop over the items. The state is the list of chapters so far and the
  running chapter counter.
\<close>

definition extract_step ::
  "unicode_db \<Rightarrow> book_chapter list \<times> int \<Rightarrow> epub_item \<Rightarrow> book_chapter list \<times> int" where
  "extract_step U st item =
     (case st of (chapters, chapter_num) \<Rightarrow>
        if item_type item = ITEM_DOCUMENT then
          (let text = soup_text item in
           if strip text = [] then (chapters, chapter_num)
           else
             (let t = (case soup_heading item of
                         Some h \<Rightarrow> strip h
                       | None \<Rightarrow> str ''Chapter '' @ format_d 0 chapter_num)
              in (chapters @
                    [\<lparr>number = chapter_num, title = t,
                      filename = chapter_filename U chapter_num t,
                      word_count = int (length (split text)),
                      content = clean_text U text\<rparr>],
                  chapter_num + 1)))
        else (chapters, chapter_num))"

definition extract_chapters :: "unicode_db \<Rightarrow> epub_item list \<Rightarrow> book_chapter list" where
  "extract_chapters U items = fst (foldl (extract_step U) ([], 1) items)"

text \<open>
  The book's descriptive metadata: \<open>dc\<close> gives the values the EPUB holds for a Dublin
  Core field, and the first one is taken, with a default when there is none.
\<close>

record book_metadata =
  md_title :: pystr
  md_author :: pystr
  md_language :: pystr
  md_publisher :: pystr
  md_description :: pystr

definition first_or :: "pystr list \<Rightarrow> pystr \<Rightarrow> pystr" where
  "first_or vs d = (case vs of [] \<Rightarrow> d | v # rest \<Rightarrow> v)"

definition extract_metadata :: "(pystr \<Rightarrow> pystr list) \<Rightarrow> book_metadata" where
  "extract_metadata dc =
     \<lparr>md_title = first_or (dc (str ''title'')) (str ''Unknown''),
      md_author = first_or (dc (str ''creator'')) (str ''Unknown''),
      md_language = first_or (dc (str ''language'')) (str ''en''),
      md_publisher = first_or (dc (str ''publisher'')) (str ''Unknown''),
      md_description = first_or (dc (str ''description'')) []\<rparr>"

section \<open>Exceptions and the console\<close>

text \<open>
  The exceptions the program meets. \<^verbatim>\<open>MarkupError\<close> is the console library's error and,
  like every ordinary error, a subclass of \<^verbatim>\<open>Exception\<close>; \<^verbatim>\<open>KeyboardInterrupt\<close> is not, so
  \<^verbatim>\<open>except Exception\<close> lets it through while a bare \<^verbatim>\<open>except\<close> catches it. \<open>exn_str\<close> is
  \<^verbatim>\<open>str(e)\<close>, what an f-string writes for \<^verbatim>\<open>{e}\<close>.
\<close>

datatype exn = Exception pystr | MarkupError pystr | KeyboardInterrupt

fun is_Exception :: "exn \<Rightarrow> bool" where
  "is_Exception KeyboardInterrupt = False"
| "is_Exception e = True"

fun exn_str :: "exn \<Rightarrow> pystr" where
  "exn_str (Exception msg) = msg"
| "exn_str (MarkupError msg) = msg"
| "exn_str KeyboardInterrupt = []"

text \<open>
  How a command ends: it runs to its end, it leaves with \<^verbatim>\<open>typer.Exit(code)\<close>, or an
  exception that nothing catches ends it.
\<close>

datatype ending = Completed | Exit int | Raised exn

text \<open>
  Every line goes to the terminal through \<^verbatim>\<open>Console.print\<close> of the rich library, which
  reads square-bracket tags in the line as markup and raises \<^verbatim>\<open>MarkupError\<close> for a closing
  tag that closes nothing. The program never escapes the text it puts into a line, so
  whether a line prints depends on that text. What follows is the library's
  \<^verbatim>\<open>rich.markup.render\<close> as far as it decides between printing and raising.

  Two things stay parameters: \<^verbatim>\<open>Style.normalize\<close>, which brings a style name to its
  normal form before names are compared, and the evaluation of the parameters of an
  \<^verbatim>\<open>@\<close> tag, which gives a message when it fails. \<open>list_repr\<close> is the interpreter's
  \<^verbatim>\<open>repr\<close> of a list of strings.
\<close>

record console_lib =
  style_normalize :: "pystr \<Rightarrow> pystr"
  meta_error :: "pystr \<Rightarrow> pystr option"
  list_repr :: "pystr list \<Rightarrow> pystr"

text \<open>
  The tags of a line, by the library's pattern \<^verbatim>\<open>(\\*)\[([a-z#/@][^[]*?)]\<close>: a run of
  backslashes, an opening bracket, a character of \<^verbatim>\<open>[a-z#/@]\<close>, then the text up to the
  first closing bracket, with no opening bracket in between. \<open>tag_body\<close> gives that
  text and what follows the closing bracket.
\<close>

definition tag_start :: "nat \<Rightarrow> bool" where
  "tag_start c = (ascii_lower c \<or> c = 35 \<or> c = 47 \<or> c = 64)"

fun tag_body :: "pystr \<Rightarrow> (pystr \<times> pystr) option" where
  "tag_body [] = None"
| "tag_body (c # cs) =
     (if c = 93 then Some ([], cs)
      else if c = 91 then None
      else (case tag_body cs of None \<Rightarrow> None | Some (b, rest) \<Rightarrow> Some (c # b, rest)))"

text \<open>
  A match of the pattern at the head of the text: the number of backslashes, the text
  of the tag and the rest of the line.
\<close>

definition match_tag :: "pystr \<Rightarrow> (nat \<times> pystr \<times> pystr) option" where
  "match_tag s =
     (let escapes = takeWhile (\<lambda>c. c = 92) s in
      case dropWhile (\<lambda>c. c = 92) s of
        b # c # cs \<Rightarrow>
          if b = 91 \<and> tag_start c then
            (case tag_body cs of
               None \<Rightarrow> None
             | Some (body, rest) \<Rightarrow> Some (length escapes, c # body, rest))
          else None
      | _ \<Rightarrow> None)"

text \<open>
  \<^verbatim>\<open>_parse\<close>: the matches from left to right. An odd number of backslashes escapes the
  tag, which is then plain text; otherwise the tag is kept with its position, the index
  of its opening bracket.
\<close>

fun scan_tags :: "nat \<Rightarrow> pystr \<Rightarrow> (nat \<times> pystr) list" where
  "scan_tags pos [] = []"
| "scan_tags pos (c # cs) =
     (case match_tag (c # cs) of
        None \<Rightarrow> scan_tags (pos + 1) cs
      | Some m \<Rightarrow>
          if length (snd (snd m)) < length (c # cs) then
            (if even (fst m) then [(pos + fst m, fst (snd m))] else [])
            @ scan_tags (pos + (length (c # cs) - length (snd (snd m)))) (snd (snd m))
          else scan_tags (pos + 1) cs)"

text \<open>
  \<^verbatim>\<open>tag_text.partition("=")\<close>: the name of the tag and its parameters, if it has an equals
  sign. \<open>tag_markup\<close> is the tag as the error message shows it.
\<close>

definition partition_eq :: "pystr \<Rightarrow> pystr \<times> pystr option" where
  "partition_eq t =
     (takeWhile (\<lambda>c. c \<noteq> 61) t,
      case dropWhile (\<lambda>c. c \<noteq> 61) t of [] \<Rightarrow> None | e # ps \<Rightarrow> Some ps)"

definition tag_markup :: "pystr \<times> pystr option \<Rightarrow> pystr" where
  "tag_markup t =
     (case t of
        (name, None) \<Rightarrow> str ''['' @ name @ str '']''
      | (name, Some ps) \<Rightarrow> str ''['' @ name @ str ''='' @ ps @ str '']'')"

text \<open>
  The stack of open tags, the last opened first. \<open>pop_style\<close> takes out the last
  opened tag of the given name.
\<close>

fun pop_style ::
  "pystr \<Rightarrow> (pystr \<times> pystr option) list
     \<Rightarrow> ((pystr \<times> pystr option) \<times> (pystr \<times> pystr option) list) option" where
  "pop_style n [] = None"
| "pop_style n (t # ts) =
     (if fst t = n then Some (t, ts)
      else (case pop_style n ts of None \<Rightarrow> None | Some (u, us) \<Rightarrow> Some (u, t # us)))"

definition closing_error :: "pystr \<times> pystr option \<Rightarrow> nat \<Rightarrow> pystr" where
  "closing_error t pos =
     str ''closing tag '' @ [39] @ tag_markup t @ [39] @ str '' at position ''
       @ digits pos @ str '' doesn't match any open tag''"

definition nothing_to_close_error :: "nat \<Rightarrow> pystr" where
  "nothing_to_close_error pos =
     str ''closing tag '' @ [39] @ str ''[/]'' @ [39] @ str '' at position ''
       @ digits pos @ str '' has nothing to close''"

text \<open>
  The loop of \<^verbatim>\<open>render\<close> over the tags: the message of the \<^verbatim>\<open>MarkupError\<close> it raises, if
  it raises. An opening tag is pushed under its normal name. A closing tag with a name
  takes out the open tag of that name, a closing tag without a name the last opened tag;
  when there is none to take, the error is raised. Tags still open at the end are fine.
\<close>

fun render_tags ::
  "console_lib \<Rightarrow> (pystr \<times> pystr option) list \<Rightarrow> (nat \<times> pystr) list \<Rightarrow> pystr option" where
  "render_tags L stack [] = None"
| "render_tags L stack (x # xs) =
     (let pos = fst x; t = partition_eq (snd x); name = fst t in
      if name \<noteq> [] \<and> hd name = 47 then
        (let style_name = strip (tl name);
             popped =
               (if style_name \<noteq> [] then pop_style (style_normalize L style_name) stack
                else (case stack of [] \<Rightarrow> None | last_open # below \<Rightarrow> Some (last_open, below)))
         in case popped of
              None \<Rightarrow>
                Some (if style_name \<noteq> [] then closing_error t pos
                      else nothing_to_close_error pos)
            | Some p \<Rightarrow>
                (let open_tag = fst p;
                     failed =
                       (if fst open_tag \<noteq> [] \<and> hd (fst open_tag) = 64 then
                          (case snd open_tag of
                             None \<Rightarrow> None
                           | Some ps \<Rightarrow> if ps = [] then None else meta_error L ps)
                        else None)
                 in case failed of
                      Some msg \<Rightarrow> Some msg
                    | None \<Rightarrow> render_tags L (snd p) xs))
      else render_tags L ((style_normalize L name, snd t) # stack) xs)"

definition markup_error :: "console_lib \<Rightarrow> pystr \<Rightarrow> pystr option" where
  "markup_error L line = render_tags L [] (scan_tags 0 line)"

definition console_print :: "console_lib \<Rightarrow> pystr \<Rightarrow> exn option" where
  "console_print L line = map_option MarkupError (markup_error L line)"

text \<open>Several lines in a row: the first one that raises ends the row.\<close>

fun print_all :: "console_lib \<Rightarrow> pystr list \<Rightarrow> exn option" where
  "print_all L [] = None"
| "print_all L (line # rest) =
     (case console_print L line of Some e \<Rightarrow> Some e | None \<Rightarrow> print_all L rest)"

text \<open>
  A path is a directory and a file name (\<^verbatim>\<open>output_dir / "ch01.wav"\<close>); as a string it is
  the two joined by a slash, for a directory in the normal form of \<^verbatim>\<open>pathlib\<close>.
\<close>

type_synonym path = "pystr \<times> pystr"

definition path_str :: "path \<Rightarrow> pystr" where
  "path_str p = fst p @ str ''/'' @ snd p"

section \<open>Book layout: \<^verbatim>\<open>BookProcessor.save_metadata\<close> and reading the files back\<close>

text \<open>
  The Python values that go through YAML: \<^verbatim>\<open>None\<close>, strings, integers, lists, and
  dictionaries with string keys. A dictionary is the list of its items in the order
  of insertion, with keys that differ from each other. \<open>YOther\<close> stands for a scalar of
  another type (a boolean, a float, a date), given by its text.
\<close>

datatype yaml =
  YNull | YStr pystr | YInt int | YOther pystr | YSeq "yaml list" | YMap "(pystr \<times> yaml) list"

subsection \<open>The YAML library\<close>

text \<open>
  \<^verbatim>\<open>yaml.dump\<close> and \<^verbatim>\<open>yaml.safe_load\<close> are PyYAML's. They are modelled on the document: the
  tree of scalars, sequences and mappings that the emitter writes and the parser reads
  back, each scalar with the tag written in front of it (if one is), its style (plain or
  quoted) and its text. How the emitter lays the tree out in characters (indentation,
  line folding, escapes) is not modelled: a YAML file holds a document.
\<close>

datatype ytag = Tag_null | Tag_str | Tag_int | Tag_other

datatype node =
  Scalar "ytag option" bool pystr | Sequence "node list" | Mapping "(node \<times> node) list"

text \<open>
  The library's tables stay parameters: the implicit resolver, which gives the tag a
  plain scalar is read with; the emitter's analysis, which says whether a text may be
  written plain at all, as the key of a mapping (first argument true) or elsewhere; and
  the reading of integers that are not plain decimal numbers (binary, octal,
  hexadecimal, sexagesimal).
\<close>

record yaml_lib =
  resolve_plain :: "pystr \<Rightarrow> ytag"
  allow_plain :: "bool \<Rightarrow> pystr \<Rightarrow> bool"
  other_int :: "pystr \<Rightarrow> int option"

text \<open>
  Writing a scalar of tag \<open>t\<close>, as a key or not: plain and without a tag when the resolver would read the
  plain text with that very tag and the analysis allows the plain style; otherwise
  quoted, without a tag for a string (a quoted scalar is read as a string) and with the
  tag written for anything else.
\<close>

definition emit_scalar :: "yaml_lib \<Rightarrow> bool \<Rightarrow> ytag \<Rightarrow> pystr \<Rightarrow> node" where
  "emit_scalar Y simple_key t s =
     (if resolve_plain Y s = t \<and> allow_plain Y simple_key s then Scalar None True s
      else if t = Tag_str then Scalar None False s
      else Scalar (Some t) False s)"

text \<open>
  \<^verbatim>\<open>represent_data\<close>, \<^verbatim>\<open>serialize\<close> and \<^verbatim>\<open>emit\<close>: \<^verbatim>\<open>None\<close> is the scalar \<^verbatim>\<open>null\<close>, an integer
  its decimal digits, a dictionary the mapping of its items sorted by key
  (\<^verbatim>\<open>sort_keys\<close> is on by default).
\<close>

primrec yaml_dump :: "yaml_lib \<Rightarrow> yaml \<Rightarrow> node" where
  "yaml_dump Y YNull = emit_scalar Y False Tag_null (str ''null'')"
| "yaml_dump Y (YStr s) = emit_scalar Y False Tag_str s"
| "yaml_dump Y (YInt n) = emit_scalar Y False Tag_int (format_d 0 n)"
| "yaml_dump Y (YOther s) = emit_scalar Y False Tag_other s"
| "yaml_dump Y (YSeq vs) = Sequence (map (yaml_dump Y) vs)"
| "yaml_dump Y (YMap items) =
     Mapping (map (\<lambda>kn. (emit_scalar Y True Tag_str (fst kn), snd kn))
                (sort_key fst (map (map_prod id (yaml_dump Y)) items)))"

text \<open>
  \<^verbatim>\<open>construct_yaml_int\<close>: underscores are dropped and a sign is read; then \<^verbatim>\<open>0\<close> is zero and
  a run of ASCII digits that does not start with \<^verbatim>\<open>0\<close> is a decimal number. Every
  other text is left to the library.
\<close>

definition decimal :: "pystr \<Rightarrow> nat" where
  "decimal s = foldl (\<lambda>a c. 10 * a + (c - 48)) 0 s"

definition construct_int :: "yaml_lib \<Rightarrow> pystr \<Rightarrow> int option" where
  "construct_int Y s =
     (let v = filter (\<lambda>c. c \<noteq> 95) s;
          negative = (v \<noteq> [] \<and> hd v = 45);
          v = (if v \<noteq> [] \<and> (hd v = 43 \<or> hd v = 45) then tl v else v)
      in if v = str ''0'' then Some 0
         else if v \<noteq> [] \<and> hd v \<noteq> 48 \<and> list_all ascii_digit v
         then Some (if negative then - int (decimal v) else int (decimal v))
         else other_int Y s)"

text \<open>
  Reading a scalar: its tag is the written one, else the resolver's for a plain scalar,
  else that of strings; the value is built from the text by the tag.
\<close>

definition load_scalar :: "yaml_lib \<Rightarrow> ytag option \<Rightarrow> bool \<Rightarrow> pystr \<Rightarrow> yaml option" where
  "load_scalar Y written plain s =
     (let t = (case written of
                 Some t \<Rightarrow> t
               | None \<Rightarrow> if plain then resolve_plain Y s else Tag_str)
      in case t of
           Tag_null \<Rightarrow> Some YNull
         | Tag_str \<Rightarrow> Some (YStr s)
         | Tag_int \<Rightarrow> map_option YInt (construct_int Y s)
         | Tag_other \<Rightarrow> Some (YOther s))"

text \<open>
  \<^verbatim>\<open>construct_mapping\<close>: the items are entered one after the other, a later value for a
  key replacing an earlier one. Only string keys are among the values modelled.
\<close>

definition item_of :: "yaml option \<times> yaml option \<Rightarrow> (pystr \<times> yaml) option" where
  "item_of kv = (case kv of (Some (YStr k), Some v) \<Rightarrow> Some (k, v) | _ \<Rightarrow> None)"

definition dict_of :: "(pystr \<times> yaml) list \<Rightarrow> (pystr \<times> yaml) list" where
  "dict_of items = foldl (\<lambda>d kv. AList.update (fst kv) (snd kv) d) [] items"

primrec yaml_safe_load :: "yaml_lib \<Rightarrow> node \<Rightarrow> yaml option" where
  "yaml_safe_load Y (Scalar written plain s) = load_scalar Y written plain s"
| "yaml_safe_load Y (Sequence ns) = map_option YSeq (those (map (yaml_safe_load Y) ns))"
| "yaml_safe_load Y (Mapping kns) =
     map_option (\<lambda>items. YMap (dict_of items))
       (those (map item_of (map (map_prod (yaml_safe_load Y) (yaml_safe_load Y)) kns)))"

subsection \<open>Saving and reading back\<close>

text \<open>
  The file system maps the path of a YAML file to the document it holds. Opening a
  file for writing is taken to succeed; reading a file that is not there, or that the
  loader rejects, raises.
\<close>

type_synonym file_system = "path \<Rightarrow> node option"

definition toc_entry :: "'m chapter_summary_scheme \<Rightarrow> yaml" where
  "toc_entry ch =
     YMap [(str ''number'', YInt (number ch)), (str ''title'', YStr (title ch)),
           (str ''filename'', YStr (filename ch)), (str ''word_count'', YInt (word_count ch))]"

definition toc_of :: "book_chapter list \<Rightarrow> yaml" where
  "toc_of chapters = YMap [(str ''chapters'', YSeq (map toc_entry chapters))]"

definition save_metadata ::
  "yaml_lib \<Rightarrow> pystr \<Rightarrow> yaml \<Rightarrow> book_chapter list \<Rightarrow> file_system \<Rightarrow> file_system" where
  "save_metadata Y book_dir metadata chapters fs =
     (let fs = fs((book_dir, str ''metadata.yml'') \<mapsto> yaml_dump Y metadata);
          toc = toc_of chapters
      in fs((book_dir, str ''toc.yml'') \<mapsto> yaml_dump Y toc))"

text \<open>
  The metadata dictionary that \<^verbatim>\<open>convert\<close> hands to \<^verbatim>\<open>save_metadata\<close>: the five extracted
  fields and the slug.
\<close>

definition metadata_dict :: "book_metadata \<Rightarrow> pystr \<Rightarrow> yaml" where
  "metadata_dict md slug =
     YMap [(str ''title'', YStr (md_title md)), (str ''author'', YStr (md_author md)),
           (str ''language'', YStr (md_language md)),
           (str ''publisher'', YStr (md_publisher md)),
           (str ''description'', YStr (md_description md)), (str ''slug'', YStr slug)]"

text \<open>
  Reading back, as \<^verbatim>\<open>list_chapters\<close> and \<^verbatim>\<open>generate_audio\<close> do: load the file, then index
  the dictionaries by key. A missing key, or a value of another type than the one the
  caller uses it at, raises.
\<close>

definition load_yaml :: "yaml_lib \<Rightarrow> file_system \<Rightarrow> path \<Rightarrow> exn + yaml" where
  "load_yaml Y fs p =
     (case fs p of
        None \<Rightarrow> Inl (Exception (str ''FileNotFoundError''))
      | Some doc \<Rightarrow>
          (case yaml_safe_load Y doc of
             None \<Rightarrow> Inl (Exception (str ''ValueError''))
           | Some v \<Rightarrow> Inr v))"

definition get_item :: "yaml \<Rightarrow> pystr \<Rightarrow> yaml option" where
  "get_item d k = (case d of YMap items \<Rightarrow> map_of items k | _ \<Rightarrow> None)"

definition get_str :: "yaml \<Rightarrow> pystr \<Rightarrow> pystr option" where
  "get_str d k = (case get_item d k of Some (YStr v) \<Rightarrow> Some v | _ \<Rightarrow> None)"

definition get_int :: "yaml \<Rightarrow> pystr \<Rightarrow> int option" where
  "get_int d k = (case get_item d k of Some (YInt v) \<Rightarrow> Some v | _ \<Rightarrow> None)"

definition read_summary :: "yaml \<Rightarrow> chapter_summary option" where
  "read_summary d =
     (case (get_int d (str ''number''), get_str d (str ''title''),
            get_str d (str ''filename''), get_int d (str ''word_count'')) of
        (Some n, Some t, Some f, Some w) \<Rightarrow>
          Some \<lparr>number = n, title = t, filename = f, word_count = w\<rparr>
      | _ \<Rightarrow> None)"

definition read_toc :: "yaml \<Rightarrow> chapter_summary list option" where
  "read_toc toc =
     (case get_item toc (str ''chapters'') of
        Some (YSeq ds) \<Rightarrow> those (map read_summary ds)
      | _ \<Rightarrow> None)"

definition load_toc :: "yaml_lib \<Rightarrow> file_system \<Rightarrow> pystr \<Rightarrow> chapter_summary list option" where
  "load_toc Y fs book_dir =
     (case load_yaml Y fs (book_dir, str ''toc.yml'') of Inl e \<Rightarrow> None | Inr toc \<Rightarrow> read_toc toc)"

text \<open>
  The six fields of the metadata read back from \<^verbatim>\<open>metadata.yml\<close>: title, author,
  language, publisher, description and slug.
\<close>

definition load_metadata :: "yaml_lib \<Rightarrow> file_system \<Rightarrow> pystr \<Rightarrow> (book_metadata \<times> pystr) option" where
  "load_metadata Y fs book_dir =
     (case load_yaml Y fs (book_dir, str ''metadata.yml'') of
        Inl e \<Rightarrow> None
      | Inr d \<Rightarrow>
          (case (get_str d (str ''title''), get_str d (str ''author''),
                 get_str d (str ''language''), get_str d (str ''publisher''),
                 get_str d (str ''description''), get_str d (str ''slug'')) of
             (Some t, Some a, Some l, Some p, Some ds, Some sl) \<Rightarrow>
               Some (\<lparr>md_title = t, md_author = a, md_language = l, md_publisher = p,
                      md_description = ds\<rparr>, sl)
           | _ \<Rightarrow> None))"

definition summary_of :: "book_chapter \<Rightarrow> chapter_summary" where
  "summary_of ch =
     \<lparr>number = number ch, title = title ch, filename = filename ch, word_count = word_count ch\<rparr>"

section \<open>Speech segment generator: \<^verbatim>\<open>TTSManager.generate_speech\<close>\<close>

text \<open>
  A segment is the triple the engine yields: grapheme text, phoneme text, audio buffer.
  The engine is called once; \<^verbatim>\<open>list(generator)\<close> either raises or gives the finite list of
  segments. \<^verbatim>\<open>sf.write\<close> is recorded as a write of a buffer at a sample rate to a path and
  is taken to succeed.
\<close>

type_synonym 'a segment = "pystr \<times> pystr \<times> 'a list"

type_synonym 'a engine = "pystr \<Rightarrow> pystr \<Rightarrow> exn + 'a segment list"

record 'a sf_write =
  w_path :: path
  w_data :: "'a list"
  w_rate :: nat

definition segment_file :: "pystr \<Rightarrow> pystr \<Rightarrow> nat \<Rightarrow> path" where
  "segment_file output_dir filename_prefix i =
     (output_dir, filename_prefix @ str ''_'' @ format_d 3 (int i) @ str ''.wav'')"

definition combined_file :: "pystr \<Rightarrow> pystr \<Rightarrow> path" where
  "combined_file output_dir filename_prefix = (output_dir, filename_prefix @ str ''.wav'')"

text \<open>
  The lines the generator prints with text of the call in them: the voice, the
  graphemes and phonemes of each segment, and the paths of the files written. The line
  with the duration, printed last, holds numbers only and always prints.
\<close>

definition speech_voice_line :: "pystr \<Rightarrow> pystr" where
  "speech_voice_line voice =
     str ''[green]'' @ [127897, 65039] @ str '' Generating speech with voice: '' @ voice
       @ str ''[/green]''"

definition segment_line :: "nat \<Rightarrow> nat \<Rightarrow> pystr \<Rightarrow> pystr \<Rightarrow> pystr" where
  "segment_line i n gs ps =
     str ''Segment '' @ digits (i + 1) @ str ''/'' @ digits n @ str '': gs='' @ gs
       @ str '', ps='' @ ps"

definition saved_line :: "path \<Rightarrow> pystr" where
  "saved_line fname =
     str ''[yellow]'' @ [128190] @ str '' Saved segment: '' @ path_str fname @ str ''[/yellow]''"

definition combined_line :: "path \<Rightarrow> pystr" where
  "combined_line fname =
     str ''[bold green]'' @ [127925] @ str '' Combined audio saved: '' @ path_str fname
       @ str ''[/bold green]''"

text \<open>
  The loop over \<^verbatim>\<open>enumerate(segments)\<close>. The state is \<^verbatim>\<open>audio_files\<close>,
  \<^verbatim>\<open>all_audio_segments\<close> and the writes made so far; \<open>n\<close> is \<^verbatim>\<open>len(segments)\<close>. A line that
  does not print ends the loop with the state as it then is: the segment's line comes
  before its buffer is kept, the line of a saved file after the file is written.
\<close>

fun segment_loop ::
  "console_lib \<Rightarrow> pystr \<Rightarrow> pystr \<Rightarrow> bool \<Rightarrow> bool \<Rightarrow> nat \<Rightarrow> (nat \<times> 'a segment) list
     \<Rightarrow> path list \<times> 'a list list \<times> 'a sf_write list
     \<Rightarrow> (path list \<times> 'a list list \<times> 'a sf_write list) \<times> exn option" where
  "segment_loop L output_dir filename_prefix save_files combine_segments n [] st = (st, None)"
| "segment_loop L output_dir filename_prefix save_files combine_segments n (x # xs) st =
     (case st of (audio_files, all_audio_segments, writes) \<Rightarrow>
      case x of (i, gs, ps, audio) \<Rightarrow>
        (case console_print L (segment_line i n gs ps) of
           Some e \<Rightarrow> (st, Some e)
         | None \<Rightarrow>
             if save_files \<and> \<not> combine_segments then
               (let fname = segment_file output_dir filename_prefix i;
                    st' = (audio_files @ [fname], all_audio_segments @ [audio],
                           writes @ [\<lparr>w_path = fname, w_data = audio, w_rate = 24000\<rparr>])
                in case console_print L (saved_line fname) of
                     Some e \<Rightarrow> (st', Some e)
                   | None \<Rightarrow>
                       segment_loop L output_dir filename_prefix save_files combine_segments n
                         xs st')
             else
               segment_loop L output_dir filename_prefix save_files combine_segments n xs
                 (audio_files, all_audio_segments @ [audio], writes)))"

text \<open>
  The result is the files written, and either the exception that ended the call or the
  list of paths returned.
\<close>

definition generate_speech ::
  "console_lib \<Rightarrow> 'a engine \<Rightarrow> pystr \<Rightarrow> pystr \<Rightarrow> pystr \<Rightarrow> pystr \<Rightarrow> bool \<Rightarrow> bool
     \<Rightarrow> 'a sf_write list \<times> (exn + path list)" where
  "generate_speech L pipeline output_dir text voice filename_prefix save_files combine_segments =
     (case console_print L (speech_voice_line voice) of
        Some e \<Rightarrow> ([], Inl e)
      | None \<Rightarrow>
          (case pipeline text voice of
             Inl e \<Rightarrow> ([], Inl e)
           | Inr segments \<Rightarrow>
               (case segment_loop L output_dir filename_prefix save_files combine_segments
                       (length segments) (enumerate 0 segments) ([], [], []) of
                  ((audio_files, all_audio_segments, writes), Some e) \<Rightarrow> (writes, Inl e)
                | ((audio_files, all_audio_segments, writes), None) \<Rightarrow>
                    if save_files \<and> combine_segments \<and> all_audio_segments \<noteq> [] then
                      (let combined_audio = concat all_audio_segments;
                           combined_filename = combined_file output_dir filename_prefix;
                           writes' = writes @ [\<lparr>w_path = combined_filename,
                                                w_data = combined_audio, w_rate = 24000\<rparr>]
                       in case console_print L (combined_line combined_filename) of
                            Some e \<Rightarrow> (writes', Inl e)
                          | None \<Rightarrow> (writes', Inr (audio_files @ [combined_filename])))
                    else (writes, Inr audio_files))))"

text \<open>
  \<^verbatim>\<open>TTSManager(...)\<close>: when the engine fails to start, \<^verbatim>\<open>except Exception\<close> prints the
  error and raises it again. \<open>tts_init\<close> is that error, if any.
\<close>

definition init_failed_line :: "exn \<Rightarrow> pystr" where
  "init_failed_line e =
     str ''[red]'' @ [10060] @ str '' TTS initialization failed: '' @ exn_str e @ str ''[/red]''"

definition tts_manager :: "console_lib \<Rightarrow> exn option \<Rightarrow> exn option" where
  "tts_manager L tts_init =
     (case tts_init of
        None \<Rightarrow> None
      | Some e \<Rightarrow>
          if is_Exception e then
            (case console_print L (init_failed_line e) of Some e' \<Rightarrow> Some e' | None \<Rightarrow> Some e)
          else Some e)"

section \<open>Voice comparison: \<^verbatim>\<open>compare\<close>\<close>

text \<open>
  What the outside world does during one turn of the loop over the voices: the clock
  before the call, the engine's behaviour on the call, the clock when the call is over
  (returned or raised), the size \<^verbatim>\<open>stat()\<close> reports for the produced file, and what
  \<^verbatim>\<open>sf.read\<close> gives for it (the length of the data and the sample rate). Clock readings
  and the derived sizes and durations are Python floats; they are real numbers here.
\<close>

record 'a voice_run =
  t_start :: real
  engine :: "'a engine"
  t_end :: real
  stat_size :: "exn + int"
  sf_read :: "exn + int \<times> int"

record comparison_result =
  voice :: pystr
  result_file :: pystr
  size_mb :: real
  duration_min :: real
  generation_time :: real
  success :: bool

definition AVAILABLE_VOICES :: "pystr list" where
  "AVAILABLE_VOICES = [str ''af_heart'', str ''af_sarah'', str ''af_bella'']"

text \<open>
  The choice of the voices to test: the voices, or the requested voices that are
  unknown. The empty list stands for an option that was not given.
\<close>

definition voices_to_test :: "bool \<Rightarrow> pystr list \<Rightarrow> pystr list + pystr list" where
  "voices_to_test all_voices voices =
     (if all_voices then Inr AVAILABLE_VOICES
      else if voices \<noteq> [] then
        (let invalid_voices = filter (\<lambda>v. v \<notin> set AVAILABLE_VOICES) voices
         in if invalid_voices \<noteq> [] then Inl invalid_voices else Inr voices)
      else Inr AVAILABLE_VOICES)"

text \<open>
  The lines of the command that carry text of the run. In the line of a generated
  file the name is followed by the size and the duration in fixed-point notation; that
  tail holds no bracket, so the line prints exactly when the part up to it does, and
  only that part is written out.
\<close>

fun join :: "pystr \<Rightarrow> pystr list \<Rightarrow> pystr" where
  "join sep [] = []"
| "join sep [x] = x"
| "join sep (x # y # ys) = x @ sep @ join sep (y # ys)"

definition not_found_line :: "pystr \<Rightarrow> pystr" where
  "not_found_line text_file = [10060] @ str '' Text file not found: '' @ text_file"

definition read_error_line :: "exn \<Rightarrow> pystr" where
  "read_error_line e = [10060] @ str '' Error reading file: '' @ exn_str e"

definition invalid_voices_line :: "console_lib \<Rightarrow> pystr list \<Rightarrow> pystr" where
  "invalid_voices_line L invalid_voices =
     [10060] @ str '' Invalid voices: '' @ list_repr L invalid_voices"

definition text_file_line :: "pystr \<Rightarrow> pystr" where
  "text_file_line text_file =
     [128196] @ str '' Text file: [cyan]'' @ text_file @ str ''[/cyan]''"

definition voices_line :: "pystr list \<Rightarrow> pystr" where
  "voices_line vs =
     [127917] @ str '' Testing voices: [yellow]'' @ join (str '', '') vs @ str ''[/yellow]''"

definition preview_line :: "pystr \<Rightarrow> pystr" where
  "preview_line text_content =
     str ''[dim]''
       @ (if length text_content > 200 then take 200 text_content @ str ''...''
          else text_content)
       @ str ''[/dim]''"

definition output_dir_line :: "pystr \<Rightarrow> pystr" where
  "output_dir_line session_dir =
     [128193] @ str '' Output directory: [cyan]'' @ session_dir @ str ''[/cyan]''"

definition processing_voice_line :: "pystr \<Rightarrow> pystr" where
  "processing_voice_line v =
     [127925] @ str '' Processing with voice: [magenta]'' @ v @ str ''[/magenta]''"

definition generated_line :: "pystr \<Rightarrow> pystr" where
  "generated_line name = str ''   '' @ [9989] @ str '' Generated: [green]'' @ name @ str ''[/green] (''"

definition error_line :: "exn \<Rightarrow> pystr" where
  "error_line e = str ''   '' @ [10060] @ str '' Error: '' @ exn_str e"

definition error_result :: "pystr \<Rightarrow> comparison_result" where
  "error_result v =
     \<lparr>voice = v, result_file = str ''Error'', size_mb = 0, duration_min = 0, generation_time = 0,
      success = False\<rparr>"

text \<open>
  The body of the \<^verbatim>\<open>try\<close> for one voice: the entries appended to \<^verbatim>\<open>results\<close>, the files
  written, and the exception that ended the body, if any. A failing \<^verbatim>\<open>sf.read\<close>, or a
  division by a zero sample rate, is caught by the inner bare \<^verbatim>\<open>except\<close> and sets the
  duration to zero. The entry of a success is appended before its line is printed.
\<close>

definition voice_try ::
  "console_lib \<Rightarrow> pystr \<Rightarrow> pystr \<Rightarrow> pystr \<Rightarrow> 'a voice_run \<Rightarrow> pystr
     \<Rightarrow> (comparison_result list \<times> 'a sf_write list) \<times> exn option" where
  "voice_try L session_dir text_slug text_content run v =
     (case generate_speech L (engine run) session_dir text_content v (text_slug @ str ''_'' @ v)
             True True of
        (writes, Inl e) \<Rightarrow> (([], writes), Some e)
      | (writes, Inr audio_files) \<Rightarrow>
          (let generation_time = t_end run - t_start run in
           case audio_files of
             [] \<Rightarrow>
               (([\<lparr>voice = v, result_file = str ''Failed'', size_mb = 0, duration_min = 0,
                   generation_time = generation_time, success = False\<rparr>], writes), None)
           | audio_file # rest \<Rightarrow>
               (case stat_size run of
                  Inl e \<Rightarrow> (([], writes), Some e)
                | Inr st_size \<Rightarrow>
                    (let file_size_mb = real_of_int st_size / (1024 * 1024);
                         duration_minutes =
                           (case sf_read run of
                              Inl e \<Rightarrow> 0
                            | Inr (len_data, samplerate) \<Rightarrow>
                                if samplerate = 0 then 0
                                else real_of_int len_data / real_of_int samplerate / 60);
                         entry = \<lparr>voice = v, result_file = snd audio_file,
                                  size_mb = file_size_mb, duration_min = duration_minutes,
                                  generation_time = generation_time, success = True\<rparr>
                     in (([entry], writes), console_print L (generated_line (snd audio_file)))))))"

text \<open>
  One turn of the loop: the voice is announced, the body runs, and
  \<^verbatim>\<open>except Exception as e\<close> prints the error and then appends the error entry. An
  exception that is not an \<^verbatim>\<open>Exception\<close>, or one raised by a line outside the \<^verbatim>\<open>try\<close>
  (the announcement, the handler's own line), ends the turn and the loop.
\<close>

definition compare_voice ::
  "console_lib \<Rightarrow> pystr \<Rightarrow> pystr \<Rightarrow> pystr \<Rightarrow> 'a voice_run \<Rightarrow> pystr
     \<Rightarrow> (comparison_result list \<times> 'a sf_write list) \<times> exn option" where
  "compare_voice L session_dir text_slug text_content run v =
     (case console_print L (processing_voice_line v) of
        Some e \<Rightarrow> (([], []), Some e)
      | None \<Rightarrow>
          (case voice_try L session_dir text_slug text_content run v of
             ((entries, writes), None) \<Rightarrow> ((entries, writes), None)
           | ((entries, writes), Some e) \<Rightarrow>
               if is_Exception e then
                 (case console_print L (error_line e) of
                    Some e' \<Rightarrow> ((entries, writes), Some e')
                  | None \<Rightarrow> ((entries @ [error_result v], writes), None))
               else ((entries, writes), Some e)))"

text \<open>
  The loop over the voices; \<open>runs i\<close> is what the world does during turn \<open>i\<close>. The
  state is \<^verbatim>\<open>results\<close> and the files written.
\<close>

fun compare_voices ::
  "console_lib \<Rightarrow> pystr \<Rightarrow> pystr \<Rightarrow> pystr \<Rightarrow> (nat \<Rightarrow> 'a voice_run) \<Rightarrow> nat \<Rightarrow> pystr list
     \<Rightarrow> comparison_result list \<times> 'a sf_write list
     \<Rightarrow> (comparison_result list \<times> 'a sf_write list) \<times> exn option" where
  "compare_voices L session_dir text_slug text_content runs i [] st = (st, None)"
| "compare_voices L session_dir text_slug text_content runs i (v # vs) st =
     (case st of (results, written) \<Rightarrow>
      case compare_voice L session_dir text_slug text_content (runs i) v of
        ((entries, ws), Some e) \<Rightarrow> ((results @ entries, written @ ws), Some e)
      | ((entries, ws), None) \<Rightarrow>
          compare_voices L session_dir text_slug text_content runs (Suc i) vs
            (results @ entries, written @ ws))"

text \<open>
  The command up to the end of the loop, after which \<^verbatim>\<open>results\<close> is only read. The text
  file is read and stripped; a missing, unreadable or empty file ends the command with
  exit code 1, and so does an unknown voice. Then the run is described on the console,
  the engine is started and the loop runs. \<open>text_file\<close> is the path as given;
  \<open>file_read\<close> is \<open>None\<close> when there is no such file, else the error of reading it or its
  content. The result is \<^verbatim>\<open>results\<close> with the files written, and how the command ended,
  \<open>Completed\<close> standing for a loop that ran to its end.
\<close>

definition compare ::
  "console_lib \<Rightarrow> pystr \<Rightarrow> (exn + pystr) option \<Rightarrow> pystr list \<Rightarrow> bool \<Rightarrow> exn option \<Rightarrow> pystr
     \<Rightarrow> pystr \<Rightarrow> (nat \<Rightarrow> 'a voice_run)
     \<Rightarrow> (comparison_result list \<times> 'a sf_write list) \<times> ending" where
  "compare L text_file file_read voices all_voices tts_init session_dir text_slug runs =
     (case file_read of
        None \<Rightarrow>
          (case console_print L (not_found_line text_file) of
             Some e \<Rightarrow> (([], []), Raised e)
           | None \<Rightarrow> (([], []), Exit 1))
      | Some (Inl e) \<Rightarrow>
          if is_Exception e then
            (case console_print L (read_error_line e) of
               Some e' \<Rightarrow> (([], []), Raised e')
             | None \<Rightarrow> (([], []), Exit 1))
          else (([], []), Raised e)
      | Some (Inr raw) \<Rightarrow>
          (let text_content = strip raw in
           if text_content = [] then (([], []), Exit 1)
           else
             (case voices_to_test all_voices voices of
                Inl invalid_voices \<Rightarrow>
                  (case console_print L (invalid_voices_line L invalid_voices) of
                     Some e \<Rightarrow> (([], []), Raised e)
                   | None \<Rightarrow> (([], []), Exit 1))
              | Inr vs \<Rightarrow>
                  (case print_all L [text_file_line text_file, voices_line vs,
                                      preview_line text_content, output_dir_line session_dir] of
                     Some e \<Rightarrow> (([], []), Raised e)
                   | None \<Rightarrow>
                       (case tts_manager L tts_init of
                          Some e \<Rightarrow> (([], []), Raised e)
                        | None \<Rightarrow>
                            (case compare_voices L session_dir text_slug text_content runs 0 vs
                                    ([], []) of
                               (st, Some e) \<Rightarrow> (st, Raised e)
                             | (st, None) \<Rightarrow> (st, Completed)))))))"

section \<open>Audio for chapters: \<^verbatim>\<open>generate_audio\<close>\<close>

text \<open>
  What the world does during one turn of the loop over the requested chapters: the
  content read from the chapter's file (or the error of opening it) and the engine's
  behaviour on the call. The table of contents is given as it was loaded from
  \<^verbatim>\<open>toc.yml\<close>, in a book directory that exists.
\<close>

record 'a chapter_run =
  chapter_file :: "exn + pystr"
  speech :: "'a engine"

text \<open>
  The console output is kept as the list of the lines that were printed, each by what
  it reports.
\<close>

datatype console =
    Invalid_chapters "int list"
  | Generating_audio nat pystr
  | Processing_chapter int pystr
  | Generated path
  | Failed_to_generate int

definition audio_voice_line :: "nat \<Rightarrow> pystr \<Rightarrow> pystr" where
  "audio_voice_line n voice_name =
     [127897, 65039] @ str '' Generating audio for '' @ digits n
       @ str '' chapters with voice: [bold cyan]'' @ voice_name @ str ''[/bold cyan]''"

definition chapter_line :: "int \<Rightarrow> pystr \<Rightarrow> pystr" where
  "chapter_line chapter_num t =
     [127925] @ str '' Processing Chapter '' @ format_d 0 chapter_num @ str '': '' @ t"

definition generated_chapter_line :: "path \<Rightarrow> pystr" where
  "generated_chapter_line f =
     [9989] @ str '' Generated: [green]'' @ path_str f @ str ''[/green]''"

text \<open>
  \<^verbatim>\<open>{ch["number"]: ch for ch in toc["chapters"]}\<close>: a later entry with the same number
  replaces an earlier one.
\<close>

definition chapters_dict :: "chapter_summary list \<Rightarrow> int \<Rightarrow> chapter_summary option" where
  "chapters_dict toc = map_of (rev (map (\<lambda>ch. (number ch, ch)) toc))"

text \<open>
  The body of the loop for one chapter: the lines printed, the files written, and the
  exception that ended the turn, if any. Nothing in the loop catches an exception. The
  lines of a failed chapter and of the invalid chapters hold numbers only and always
  print.
\<close>

definition chapter_turn ::
  "console_lib \<Rightarrow> (int \<Rightarrow> chapter_summary option) \<Rightarrow> pystr \<Rightarrow> pystr \<Rightarrow> bool \<Rightarrow> 'a chapter_run
     \<Rightarrow> int \<Rightarrow> (console list \<times> 'a sf_write list) \<times> exn option" where
  "chapter_turn L cd output_dir voice_name combine run chapter_num =
     (case cd chapter_num of
        None \<Rightarrow> (([], []), Some (Exception (str ''KeyError'')))
      | Some chapter \<Rightarrow>
          (case chapter_file run of
             Inl e \<Rightarrow> (([], []), Some e)
           | Inr content_read \<Rightarrow>
               (case console_print L (chapter_line chapter_num (title chapter)) of
                  Some e \<Rightarrow> (([], []), Some e)
                | None \<Rightarrow>
                    (let out = [Processing_chapter chapter_num (title chapter)] in
                     case generate_speech L (speech run) output_dir content_read voice_name
                            (filename chapter) True combine of
                       (writes, Inl e) \<Rightarrow> ((out, writes), Some e)
                     | (writes, Inr audio_files) \<Rightarrow>
                         (case audio_files of
                            [] \<Rightarrow> ((out @ [Failed_to_generate chapter_num], writes), None)
                          | f # fs \<Rightarrow>
                              (case console_print L (generated_chapter_line f) of
                                 Some e \<Rightarrow> ((out, writes), Some e)
                               | None \<Rightarrow> ((out @ [Generated f], writes), None)))))))"

fun audio_loop ::
  "console_lib \<Rightarrow> (int \<Rightarrow> chapter_summary option) \<Rightarrow> pystr \<Rightarrow> pystr \<Rightarrow> bool
     \<Rightarrow> (nat \<Rightarrow> 'a chapter_run) \<Rightarrow> nat \<Rightarrow> int list \<Rightarrow> console list \<times> 'a sf_write list
     \<Rightarrow> (console list \<times> 'a sf_write list) \<times> ending" where
  "audio_loop L cd output_dir voice_name combine runs i [] st = (st, Completed)"
| "audio_loop L cd output_dir voice_name combine runs i (chapter_num # rest) st =
     (case st of (out, written) \<Rightarrow>
      case chapter_turn L cd output_dir voice_name combine (runs i) chapter_num of
        ((lines, ws), Some e) \<Rightarrow> ((out @ lines, written @ ws), Raised e)
      | ((lines, ws), None) \<Rightarrow>
          audio_loop L cd output_dir voice_name combine runs (Suc i) rest
            (out @ lines, written @ ws))"

definition generate_audio ::
  "console_lib \<Rightarrow> chapter_summary list \<Rightarrow> int list \<Rightarrow> exn option \<Rightarrow> pystr \<Rightarrow> pystr \<Rightarrow> bool
     \<Rightarrow> (nat \<Rightarrow> 'a chapter_run) \<Rightarrow> (console list \<times> 'a sf_write list) \<times> ending" where
  "generate_audio L toc chapters tts_init output_dir voice_name combine runs =
     (let cd = chapters_dict toc;
          invalid_chapters = filter (\<lambda>ch. cd ch = None) chapters
      in if invalid_chapters \<noteq> [] then (([Invalid_chapters invalid_chapters], []), Exit 1)
         else
           (case tts_manager L tts_init of
              Some e \<Rightarrow> (([], []), Raised e)
            | None \<Rightarrow>
                (case console_print L (audio_voice_line (length chapters) voice_name) of
                   Some e \<Rightarrow> (([], []), Raised e)
                 | None \<Rightarrow>
                     audio_loop L cd output_dir voice_name combine runs 0 chapters
                       ([Generating_audio (length chapters) voice_name], []))))"

section \<open>The specification's notions and sample inputs\<close>

text \<open>
  A document unit with non-whitespace extractable text, in the words of the
  specification.
\<close>

definition has_text :: "epub_item \<Rightarrow> bool" where
  "has_text item = (item_type item = ITEM_DOCUMENT \<and> strip (soup_text item) \<noteq> [])"

text \<open>
  The specification's filename pattern \<^verbatim>\<open>^\d{2}-[a-z0-9-]*$\<close>, read as it explains it:
  two digits, a hyphen, then only lowercase ASCII letters, digits and hyphens. The second
  pattern also admits the underscore: \<^verbatim>\<open>^\d{2}-[a-z0-9_-]*$\<close>.
\<close>

definition filename_pattern :: "pystr \<Rightarrow> bool" where
  "filename_pattern s =
     (case s of
        d1 # d2 # h # rest \<Rightarrow>
          ascii_digit d1 \<and> ascii_digit d2 \<and> is_hyphen h
          \<and> list_all (\<lambda>c. ascii_lower c \<or> ascii_digit c \<or> is_hyphen c) rest
      | _ \<Rightarrow> False)"

definition filename_pattern_underscore :: "pystr \<Rightarrow> bool" where
  "filename_pattern_underscore s =
     (case s of
        d1 # d2 # h # rest \<Rightarrow>
          ascii_digit d1 \<and> ascii_digit d2 \<and> is_hyphen h
          \<and> list_all (\<lambda>c. ascii_lower c \<or> ascii_digit c \<or> is_hyphen c \<or> c = 95) rest
      | _ \<Rightarrow> False)"

text \<open>
  A Unicode table in which no character beyond ASCII is a letter or a digit, as the
  typographic apostrophe and the long dash are not. A book of one document whose heading
  is \<^verbatim>\<open>a_b\<close>, and one whose heading is \<^verbatim>\<open>Don't Panic - Part 2\<close> written with that
  apostrophe (U+2019) and that dash (U+2014).
\<close>

definition ascii_db :: unicode_db where
  "ascii_db = \<lparr>u_alnum = (\<lambda>c. False), u_decimal = (\<lambda>c. False), u_lower = (\<lambda>s. s)\<rparr>"

definition underscore_book :: "epub_item list" where
  "underscore_book =
     [\<lparr>item_type = ITEM_DOCUMENT, soup_text = str ''a b'', soup_heading = Some (str ''a_b'')\<rparr>]"

definition underscore_chapter :: book_chapter where
  "underscore_chapter =
     \<lparr>number = 1, title = str ''a_b'', filename = str ''01-a_b'', word_count = 2,
      content = str ''a b''\<rparr>"

definition panic_title :: pystr where
  "panic_title = str ''Don'' @ [8217] @ str ''t Panic '' @ [8212] @ str '' Part 2''"

definition panic_book :: "epub_item list" where
  "panic_book =
     [\<lparr>item_type = ITEM_DOCUMENT, soup_text = str ''a b'', soup_heading = Some panic_title\<rparr>]"

definition panic_chapter :: book_chapter where
  "panic_chapter =
     \<lparr>number = 1, title = panic_title, filename = str ''01-dont-panic-part-2'', word_count = 2,
      content = str ''a b''\<rparr>"

definition blank_item :: epub_item where
  "blank_item = \<lparr>item_type = ITEM_DOCUMENT, soup_text = str ''  '', soup_heading = None\<rparr>"

text \<open>
  What the console output of \<^verbatim>\<open>generate_audio\<close> says: the chapters whose processing was
  announced, and the chapters reported as failed.
\<close>

fun processed :: "console list \<Rightarrow> int list" where
  "processed [] = []"
| "processed (Processing_chapter n t # out) = n # processed out"
| "processed (m # out) = processed out"

fun reported_failed :: "console list \<Rightarrow> int list" where
  "reported_failed [] = []"
| "reported_failed (Failed_to_generate n # out) = n # reported_failed out"
| "reported_failed (m # out) = reported_failed out"

text \<open>
  The exception a turn of the chapter loop ends with, if any, and whether the engine
  yields no segment at all on that turn.
\<close>

definition turn_error ::
  "console_lib \<Rightarrow> chapter_summary list \<Rightarrow> pystr \<Rightarrow> pystr \<Rightarrow> bool \<Rightarrow> 'a chapter_run \<Rightarrow> int
     \<Rightarrow> exn option" where
  "turn_error L toc output_dir voice_name combine run chapter_num =
     snd (chapter_turn L (chapters_dict toc) output_dir voice_name combine run chapter_num)"

definition run_silent :: "pystr \<Rightarrow> 'a chapter_run \<Rightarrow> bool" where
  "run_silent voice_name run =
     (case chapter_file run of
        Inl e \<Rightarrow> False
      | Inr content_read \<Rightarrow>
          (case speech run content_read voice_name of Inl e \<Rightarrow> False | Inr segments \<Rightarrow> segments = []))"

text \<open>
  A console whose style names are their own normal forms, as those of the program's
  lines are; engines and runs to try the generator and its callers on. One engine
  emits a segment whose text is \<^verbatim>\<open>[/b]\<close>, one raises an error whose message names the
  device \<^verbatim>\<open>[/dev/snd]\<close>.
\<close>

definition plain_console :: console_lib where
  "plain_console =
     \<lparr>style_normalize = (\<lambda>s. s), meta_error = (\<lambda>ps. None), list_repr = (\<lambda>xs. str ''[]'')\<rparr>"

definition two_segments :: "int segment list" where
  "two_segments = [(str ''Hi'', str ''hI'', [1, 2]), (str ''yo'', str ''jO'', [3])]"

definition markup_segments :: "int segment list" where
  "markup_segments = [(str ''Hi'', str ''hI'', [1, 2]), (str ''[/b]'', str ''b'', [3])]"

definition steady_engine :: "int engine" where
  "steady_engine t v = Inr two_segments"

definition markup_engine :: "int engine" where
  "markup_engine t v = Inr markup_segments"

definition silent_engine :: "int engine" where
  "silent_engine t v = Inr []"

definition broken_engine :: "int engine" where
  "broken_engine t v = Inl (Exception (str ''boom''))"

definition device_engine :: "int engine" where
  "device_engine t v = Inl (Exception (str ''cannot open [/dev/snd]''))"

definition raising_run :: "int voice_run" where
  "raising_run =
     \<lparr>t_start = 100, engine = broken_engine, t_end = 105,
      stat_size = Inl (Exception (str ''FileNotFoundError'')),
      sf_read = Inl (Exception (str ''LibsndfileError''))\<rparr>"

definition device_run :: "int voice_run" where
  "device_run =
     \<lparr>t_start = 100, engine = device_engine, t_end = 105,
      stat_size = Inl (Exception (str ''FileNotFoundError'')),
      sf_read = Inl (Exception (str ''LibsndfileError''))\<rparr>"

definition silent_run :: "int voice_run" where
  "silent_run =
     \<lparr>t_start = 100, engine = silent_engine, t_end = 103,
      stat_size = Inl (Exception (str ''FileNotFoundError'')),
      sf_read = Inl (Exception (str ''LibsndfileError''))\<rparr>"

definition steady_run :: "int voice_run" where
  "steady_run =
     \<lparr>t_start = 200, engine = steady_engine, t_end = 204, stat_size = Inr 2097152,
      sf_read = Inr (72000, 24000)\<rparr>"

definition unreadable_run :: "int voice_run" where
  "unreadable_run =
     \<lparr>t_start = 100, engine = steady_engine, t_end = 107, stat_size = Inr 1048576,
      sf_read = Inl (Exception (str ''LibsndfileError''))\<rparr>"

definition sample_toc :: "chapter_summary list" where
  "sample_toc =
     [\<lparr>number = 1, title = str ''One'', filename = str ''01-one'', word_count = 2\<rparr>,
      \<lparr>number = 2, title = str ''Two'', filename = str ''02-two'', word_count = 3\<rparr>]"

definition broken_chapter_runs :: "nat \<Rightarrow> int chapter_run" where
  "broken_chapter_runs i = \<lparr>chapter_file = Inr (str ''# One''), speech = broken_engine\<rparr>"

definition silent_then_steady :: "nat \<Rightarrow> int chapter_run" where
  "silent_then_steady i =
     \<lparr>chapter_file = Inr (str ''# One''),
      speech = (if i = 0 then silent_engine else steady_engine)\<rparr>"

text \<open>
  A resolver that reads a plain \<^verbatim>\<open>null\<close> as \<^verbatim>\<open>None\<close> and a plain run of digits as an
  integer, with an analysis that allows the plain style for words of letters, digits,
  hyphens and underscores. A metadata record, and two chapters whose titles are the
  texts \<^verbatim>\<open>10\<close> and \<^verbatim>\<open>null\<close>.
\<close>

definition sample_yaml :: yaml_lib where
  "sample_yaml =
     \<lparr>resolve_plain =
        (\<lambda>s. if s = str ''null'' then Tag_null
              else if s \<noteq> [] \<and> list_all ascii_digit s then Tag_int
              else Tag_str),
      allow_plain =
        (\<lambda>simple_key s. s \<noteq> []
              \<and> list_all (\<lambda>c. ascii_lower c \<or> ascii_upper c \<or> ascii_digit c \<or> c = 45 \<or> c = 95) s),
      other_int = (\<lambda>s. None)\<rparr>"

definition sample_md :: book_metadata where
  "sample_md =
     \<lparr>md_title = str ''A Tale: of Two'', md_author = str ''A'', md_language = str ''en'',
      md_publisher = str ''Unknown'', md_description = []\<rparr>"

definition ten_chapter :: book_chapter where
  "ten_chapter =
     \<lparr>number = 1, title = str ''10'', filename = str ''01-10'', word_count = 2,
      content = str ''a b''\<rparr>"

definition null_chapter :: book_chapter where
  "null_chapter =
     \<lparr>number = 2, title = str ''null'', filename = str ''02-null'', word_count = 0,
      content = str ''c''\<rparr>"

section \<open>Properties of the matcher\<close>

lemma re_match_length: "re_match pat s = Some t \<Longrightarrow> length t \<le> length s"
proof (induction pat s arbitrary: t rule: re_match.induct)
  case (7 p r c cs)
  show ?case
  proof (cases "p c")
    case True
    show ?thesis
    proof (cases "re_match (Star_of p # r) cs")
      case None
      with True 7 show ?thesis by simp
    next
      case (Some u)
      with True 7 have "length u \<le> length cs" and "t = u" by simp_all
      then show ?thesis by simp
    qed
  next
    case False
    with 7 show ?thesis by simp
  qed
qed (auto split: if_splits dest: le_SucI)

lemma re_match_star_only: "re_match [Star_of p] s = Some (dropWhile p s)"
  by (induction s) simp_all

lemma re_match_plus_only:
  "re_match [Plus_of p] (c # cs) = (if p c then Some (dropWhile p cs) else None)"
  by (simp add: re_match_star_only)

lemma re_sub_plus_only:
  "re_sub [Plus_of p] repl (c # cs) =
     (if p c then repl @ re_sub [Plus_of p] repl (dropWhile p cs)
      else c # re_sub [Plus_of p] repl cs)"
  by (simp add: re_match_star_only less_Suc_eq_le length_dropWhile_le)

lemma re_sub_one_first_id:
  "list_all (\<lambda>c. \<not> p c) s \<Longrightarrow> re_sub (One_of p # r) repl s = s"
  by (induction s) simp_all

lemma re_sub_plus_only_set:
  "set (re_sub [Plus_of p] repl s) \<subseteq> set repl \<union> {c \<in> set s. \<not> p c}"
proof (induction "length s" arbitrary: s rule: less_induct)
  case less
  show ?case
  proof (cases s)
    case Nil
    then show ?thesis by simp
  next
    case (Cons c cs)
    show ?thesis
    proof (cases "p c")
      case True
      have "length (dropWhile p cs) < length s"
        using Cons by (simp add: less_Suc_eq_le length_dropWhile_le)
      then have "set (re_sub [Plus_of p] repl (dropWhile p cs))
                   \<subseteq> set repl \<union> {c \<in> set (dropWhile p cs). \<not> p c}"
        by (rule less)
      moreover have "set (dropWhile p cs) \<subseteq> set cs"
        by (rule set_dropWhileD [THEN subsetI])
      ultimately show ?thesis
        using Cons True by (auto simp: re_sub_plus_only simp del: re_sub.simps)
    next
      case False
      have "set (re_sub [Plus_of p] repl cs) \<subseteq> set repl \<union> {c \<in> set cs. \<not> p c}"
        using Cons by (intro less) simp
      then show ?thesis
        using Cons False by (auto simp: re_sub_plus_only simp del: re_sub.simps)
    qed
  qed
qed

lemma collapse_whitespace_no_newline:
  "list_all (\<lambda>c. \<not> is_nl c) (collapse_whitespace text)"
proof -
  have "set (collapse_whitespace text) \<subseteq> set (str '' '') \<union> {c \<in> set text. \<not> is_space c}"
    unfolding collapse_whitespace_def by (rule re_sub_plus_only_set)
  moreover have "is_space 10"
    by (simp add: is_space_def)
  ultimately show ?thesis
    by (auto simp: list_all_iff is_nl_def str_def)
qed

lemma re_match_consumes:
  assumes "re_match (One_of p # r) s = Some t \<or> re_match (Plus_of p # r) s = Some t"
  shows "length t < length s"
proof (cases s)
  case Nil
  with assms show ?thesis by simp
next
  case (Cons c cs)
  with assms have "re_match r cs = Some t \<or> re_match (Star_of p # r) cs = Some t"
    by (auto split: if_splits)
  then have "length t \<le> length cs"
    using re_match_length by blast
  with Cons show ?thesis by simp
qed

section \<open>Properties of the chapter extractor\<close>

lemma extract_step_skip:
  "\<not> has_text item \<Longrightarrow> extract_step U (chs, n) item = (chs, n)"
  by (auto simp: extract_step_def has_text_def)

lemma extract_step_add:
  "has_text item \<Longrightarrow>
     \<exists>c. extract_step U (chs, n) item = (chs @ [c], n + 1) \<and> number c = n
         \<and> filename c = chapter_filename U n (title c)"
  by (simp add: extract_step_def has_text_def Let_def)

lemma foldl_extract_numbers:
  "map number (fst (foldl (extract_step U) (chs, n) items))
     = map number chs @ [n..n + int (length (filter has_text items)) - 1]"
proof (induction items arbitrary: chs n)
  case Nil
  then show ?case by simp
next
  case (Cons item items)
  show ?case
  proof (cases "has_text item")
    case False
    then show ?thesis
      using Cons [of chs n] by (simp add: extract_step_skip)
  next
    case True
    then obtain c where c: "extract_step U (chs, n) item = (chs @ [c], n + 1)" "number c = n"
      using extract_step_add by blast
    have "[n..n + int (Suc (length (filter has_text items))) - 1]
            = n # [n + 1..n + 1 + int (length (filter has_text items)) - 1]"
      by (subst upto_rec1) (simp_all add: add.commute add.left_commute)
    then show ?thesis
      using True c Cons [of "chs @ [c]" "n + 1"] by simp
  qed
qed

lemma foldl_extract_filenames:
  "\<forall>c \<in> set chs. P c \<Longrightarrow> 1 \<le> n \<Longrightarrow>
   (\<And>c k. 1 \<le> k \<Longrightarrow> number c = k \<Longrightarrow> filename c = chapter_filename U k (title c) \<Longrightarrow> P c) \<Longrightarrow>
   \<forall>c \<in> set (fst (foldl (extract_step U) (chs, n) items)). P c"
proof (induction items arbitrary: chs n)
  case Nil
  then show ?case by simp
next
  case (Cons item items)
  show ?case
  proof (cases "has_text item")
    case False
    then show ?thesis
      using Cons.IH [of chs n] Cons.prems by (simp add: extract_step_skip)
  next
    case True
    then obtain c where c: "extract_step U (chs, n) item = (chs @ [c], n + 1)" "number c = n"
        "filename c = chapter_filename U n (title c)"
      using extract_step_add by blast
    then have "P c"
      using Cons.prems by blast
    then have "\<forall>c \<in> set (chs @ [c]). P c"
      using Cons.prems(1) by simp
    then have "\<forall>c \<in> set (fst (foldl (extract_step U) (chs @ [c], n + 1) items)). P c"
      using Cons.prems by (intro Cons.IH) auto
    then show ?thesis
      using c by simp
  qed
qed

lemma format_d_two_digits:
  assumes "0 \<le> n" "n < 100"
  shows "format_d 2 n = [48 + nat n div 10, 48 + nat n mod 10]"
proof (cases "nat n < 10")
  case True
  then show ?thesis
    using assms by (simp add: format_d_def zfill_def digits.simps [of "nat n"] numeral_2_eq_2)
next
  case False
  moreover have "nat n div 10 < 10"
    using assms by simp
  ultimately show ?thesis
    using assms
    by (simp add: format_d_def zfill_def digits.simps [of "nat n"] digits.simps [of "nat n div 10"])
qed

lemma re_sub_delete_class: "re_sub [One_of p] [] s = filter (\<lambda>c. \<not> p c) s"
  by (induction s) simp_all

lemma clean_title_set:
  "set (clean_title U t) \<subseteq> {45} \<union> {c \<in> set t. is_word U c}"
proof -
  let ?kept = "re_sub [One_of (\<lambda>c. \<not> (is_word U c \<or> is_space c \<or> is_hyphen c))] [] t"
  have "set (clean_title U t)
          \<subseteq> set (str ''-'') \<union> {c \<in> set ?kept. \<not> (is_hyphen c \<or> is_space c)}"
    unfolding clean_title_def by (rule re_sub_plus_only_set)
  then show ?thesis
    by (auto simp: re_sub_delete_class str_def)
qed

lemma lower_char_word:
  "is_ascii c \<Longrightarrow> is_word U c \<Longrightarrow>
     ascii_lower (lower_char c) \<or> ascii_digit (lower_char c) \<or> lower_char c = 95"
  by (auto simp: is_word_def lower_char_def ascii_lower_def ascii_digit_def ascii_upper_def)

lemma lower_clean_title_ascii:
  assumes "list_all is_ascii (filter (is_word U) t)"
  shows "list_all (\<lambda>c. ascii_lower c \<or> ascii_digit c \<or> is_hyphen c \<or> c = 95)
           (lower U (clean_title U t))"
proof -
  have sub: "set (clean_title U t) \<subseteq> {45} \<union> {c \<in> set t. is_word U c}"
    by (rule clean_title_set)
  have "is_ascii 45"
    by (simp add: is_ascii_def)
  with sub assms have ascii: "list_all is_ascii (clean_title U t)"
    by (auto simp: list_all_iff)
  have "ascii_lower (lower_char c) \<or> ascii_digit (lower_char c) \<or> is_hyphen (lower_char c)
          \<or> lower_char c = 95" if "c \<in> set (clean_title U t)" for c
  proof (cases "c = 45")
    case True
    then show ?thesis by (simp add: lower_char_def ascii_upper_def is_hyphen_def)
  next
    case False
    with that sub assms have "is_ascii c" "is_word U c"
      by (auto simp: list_all_iff)
    then show ?thesis
      using lower_char_word by blast
  qed
  then show ?thesis
    using ascii by (simp add: lower_def list_all_iff)
qed

lemma chapter_filename_pattern:
  assumes "1 \<le> n" "n < 100" "list_all is_ascii (filter (is_word U) t)"
  shows "filename_pattern_underscore (chapter_filename U n t)"
proof -
  have "nat n div 10 < 10" "nat n mod 10 < 10"
    using assms by simp_all
  then have "ascii_digit (48 + nat n div 10)" "ascii_digit (48 + nat n mod 10)"
    by (simp_all add: ascii_digit_def)
  moreover have "format_d 2 n = [48 + nat n div 10, 48 + nat n mod 10]"
    using assms by (simp add: format_d_two_digits)
  ultimately show ?thesis
    using lower_clean_title_ascii [OF assms(3)]
    by (simp add: chapter_filename_def filename_pattern_underscore_def str_def is_hyphen_def)
qed

lemma extract_underscore_book:
  "extract_chapters ascii_db underscore_book = [underscore_chapter]"
  by (simp add: extract_chapters_def extract_step_def underscore_book_def ascii_db_def
      underscore_chapter_def chapter_filename_def clean_title_def format_d_def zfill_def
      digits.simps lower_def lower_char_def is_word_def is_space_def is_hyphen_def is_nl_def
      is_ascii_def ascii_digit_def ascii_upper_def ascii_lower_def strip_def str_def Let_def
      clean_text_def collapse_whitespace_def remove_page_numbers_def clean_paragraph_breaks_def
      split_def)

lemma hundredth_chapter_filename:
  "chapter_filename ascii_db 100 (str ''x'') = str ''100-x''"
  by (simp add: chapter_filename_def clean_title_def format_d_def zfill_def digits.simps
      lower_def lower_char_def is_word_def is_space_def is_hyphen_def is_ascii_def ascii_db_def
      ascii_digit_def ascii_upper_def ascii_lower_def str_def)

lemma extract_panic_book:
  "extract_chapters ascii_db panic_book = [panic_chapter]"
  by (simp add: extract_chapters_def extract_step_def panic_book_def panic_title_def ascii_db_def
      panic_chapter_def chapter_filename_def clean_title_def format_d_def zfill_def
      digits.simps lower_def lower_char_def is_word_def is_space_def is_hyphen_def is_nl_def
      is_ascii_def ascii_digit_def ascii_upper_def ascii_lower_def strip_def str_def Let_def
      clean_text_def collapse_whitespace_def remove_page_numbers_def clean_paragraph_breaks_def
      split_def)

lemma accented_chapter_filename:
  "chapter_filename \<lparr>u_alnum = (\<lambda>c. c = 233), u_decimal = (\<lambda>c. False), u_lower = (\<lambda>s. s)\<rparr> 1
     [233] = str ''01-'' @ [233]"
  by (simp add: chapter_filename_def clean_title_def format_d_def zfill_def digits.simps
      lower_def is_word_def is_space_def is_hyphen_def is_ascii_def str_def)

section \<open>Properties of the console and the speech segment generator\<close>

lemmas console_eval =
  console_print_def markup_error_def match_tag_def tag_start_def partition_eq_def
  tag_markup_def closing_error_def nothing_to_close_error_def path_str_def
  ascii_lower_def strip_def is_space_def str_def digits.simps Let_def

lemmas line_defs =
  speech_voice_line_def segment_line_def saved_line_def combined_line_def
  processing_voice_line_def generated_line_def error_line_def text_file_line_def
  voices_line_def preview_line_def output_dir_line_def audio_voice_line_def chapter_line_def
  generated_chapter_line_def init_failed_line_def not_found_line_def read_error_line_def

lemma format_d_3_small: "format_d 3 0 = str ''000''" "format_d 3 1 = str ''001''"
  by (simp_all add: format_d_def zfill_def digits.simps str_def numeral_3_eq_3)

lemma format_d_0_small: "format_d 0 1 = str ''1''" "format_d 0 2 = str ''2''"
  by (simp_all add: format_d_def zfill_def digits.simps str_def)

text \<open>A loop that ends without an exception has kept every buffer and written every file.\<close>

lemma segment_loop_returns:
  "segment_loop L d p sf cb n xs (fs, aa, ws) = (st, None) \<Longrightarrow>
     st = (if sf \<and> \<not> cb
           then (fs @ map (\<lambda>x. segment_file d p (fst x)) xs,
                 aa @ map (\<lambda>x. snd (snd (snd x))) xs,
                 ws @ map (\<lambda>x. \<lparr>w_path = segment_file d p (fst x), w_data = snd (snd (snd x)),
                                 w_rate = 24000\<rparr>) xs)
           else (fs, aa @ map (\<lambda>x. snd (snd (snd x))) xs, ws))"
proof (induction xs arbitrary: fs aa ws)
  case Nil
  then show ?case by simp
next
  case (Cons x xs)
  obtain i gs ps audio where x: "x = (i, gs, ps, audio)"
    by (cases x) auto
  show ?case
  proof (cases "sf \<and> \<not> cb")
    case True
    with Cons.prems x have
      "segment_loop L d p sf cb n xs
         (fs @ [segment_file d p i], aa @ [audio],
          ws @ [\<lparr>w_path = segment_file d p i, w_data = audio, w_rate = 24000\<rparr>]) = (st, None)"
      by (simp add: Let_def split: option.splits)
    from Cons.IH [OF this] True x show ?thesis
      by simp
  next
    case False
    with Cons.prems x have "segment_loop L d p sf cb n xs (fs, aa @ [audio], ws) = (st, None)"
      by (auto split: option.splits if_splits)
    from Cons.IH [OF this] False x show ?thesis
      by simp
  qed
qed

text \<open>When every line prints, the loop ends without an exception.\<close>

lemma segment_loop_prints:
  assumes "\<forall>x \<in> set xs.
             console_print L (segment_line (fst x) n (fst (snd x)) (fst (snd (snd x)))) = None
             \<and> (sf \<and> \<not> cb \<longrightarrow>
                  console_print L (saved_line (segment_file d p (fst x))) = None)"
  shows "snd (segment_loop L d p sf cb n xs st) = None"
  using assms
proof (induction xs arbitrary: st)
  case Nil
  then show ?case by simp
next
  case (Cons x xs)
  obtain fs aa ws where st: "st = (fs, aa, ws)"
    by (cases st) auto
  obtain i gs ps audio where x: "x = (i, gs, ps, audio)"
    by (cases x) auto
  from Cons.prems x have
    "console_print L (segment_line i n gs ps) = None"
    "sf \<and> \<not> cb \<longrightarrow> console_print L (saved_line (segment_file d p i)) = None"
    by simp_all
  moreover from Cons.prems have
    "snd (segment_loop L d p sf cb n xs st') = None" for st'
    by (intro Cons.IH) simp
  ultimately show ?case
    using st x by (cases sf; cases cb) (simp_all add: Let_def)
qed

lemma map_enumerate_nth:
  "map (\<lambda>x. g (fst x) (snd x)) (enumerate 0 xs) = map (\<lambda>i. g i (xs ! i)) [0..<length xs]"
  by (rule nth_equalityI) (simp_all add: nth_enumerate_eq)

lemma map_audio_enumerate:
  "map (\<lambda>x. snd (snd (snd x))) (enumerate 0 segments) = map (\<lambda>s. snd (snd s)) segments"
  by (rule nth_equalityI) (simp_all add: nth_enumerate_eq)

lemma map_file_enumerate:
  "map (\<lambda>x. segment_file d p (fst x)) (enumerate 0 segments)
     = map (segment_file d p) [0..<length segments]"
  using map_enumerate_nth [of "\<lambda>i s. segment_file d p i" segments] by simp

lemma map_write_enumerate:
  "map (\<lambda>x. \<lparr>w_path = segment_file d p (fst x), w_data = snd (snd (snd x)), w_rate = 24000\<rparr>)
     (enumerate 0 segments)
   = map (\<lambda>i. \<lparr>w_path = segment_file d p i, w_data = snd (snd (segments ! i)),
                w_rate = 24000\<rparr>) [0..<length segments]"
  using map_enumerate_nth
    [of "\<lambda>i s. \<lparr>w_path = segment_file d p i, w_data = snd (snd s), w_rate = 24000\<rparr>" segments]
  by simp

text \<open>
  The generator when its lines print: an engine that raises, an engine that emits
  nothing, and the files of a call that returns.
\<close>

lemma generate_speech_raises:
  assumes "console_print L (speech_voice_line v) = None" and "pipeline tx v = Inl e"
  shows "generate_speech L pipeline d tx v p s c = ([], Inl e)"
  using assms by (simp add: generate_speech_def)

lemma generate_speech_no_segments:
  assumes "console_print L (speech_voice_line v) = None" and "pipeline tx v = Inr []"
  shows "generate_speech L pipeline d tx v p s c = ([], Inr [])"
  using assms by (simp add: generate_speech_def)

lemma generate_speech_returned:
  assumes "generate_speech L pipeline d tx v p True c = (ws, Inr fs)"
  shows "\<exists>segments.
           pipeline tx v = Inr segments
           \<and> console_print L (speech_voice_line v) = None
           \<and> fs = (if c then (if segments = [] then [] else [combined_file d p])
                    else map (segment_file d p) [0..<length segments])
           \<and> ws = (if c
                    then (if segments = [] then []
                          else [\<lparr>w_path = combined_file d p,
                                 w_data = concat (map (\<lambda>s. snd (snd s)) segments),
                                 w_rate = 24000\<rparr>])
                    else map (\<lambda>i. \<lparr>w_path = segment_file d p i,
                                    w_data = snd (snd (segments ! i)), w_rate = 24000\<rparr>)
                           [0..<length segments])"
proof -
  from assms have voice: "console_print L (speech_voice_line v) = None"
    by (simp add: generate_speech_def split: option.splits)
  from assms voice obtain segments where seg: "pipeline tx v = Inr segments"
    by (cases "pipeline tx v") (simp_all add: generate_speech_def)
  obtain st r where loop:
    "segment_loop L d p True c (length segments) (enumerate 0 segments) ([], [], []) = (st, r)"
    by (cases "segment_loop L d p True c (length segments) (enumerate 0 segments) ([], [], [])")
  obtain fs' aa' ws' where st: "st = (fs', aa', ws')"
    by (cases st) auto
  from assms voice seg loop st have r: "r = None"
    by (cases r) (simp_all add: generate_speech_def)
  from segment_loop_returns [OF loop [unfolded r]] st have closed:
    "(fs', aa', ws') =
       (if \<not> c
        then (map (segment_file d p) [0..<length segments],
              map (\<lambda>s. snd (snd s)) segments,
              map (\<lambda>i. \<lparr>w_path = segment_file d p i, w_data = snd (snd (segments ! i)),
                         w_rate = 24000\<rparr>) [0..<length segments])
        else ([], map (\<lambda>s. snd (snd s)) segments, []))"
    by (simp add: map_audio_enumerate map_file_enumerate map_write_enumerate)
  show ?thesis
  proof (cases c)
    case True
    with closed have "fs' = []" "aa' = map (\<lambda>s. snd (snd s)) segments" "ws' = []"
      by simp_all
    with assms voice seg loop st r True show ?thesis
      by (cases "segments = []")
        (auto simp: generate_speech_def Let_def split: option.splits)
  next
    case False
    with closed have "fs' = map (segment_file d p) [0..<length segments]"
      "ws' = map (\<lambda>i. \<lparr>w_path = segment_file d p i, w_data = snd (snd (segments ! i)),
                        w_rate = 24000\<rparr>) [0..<length segments]"
      by simp_all
    with assms voice seg loop st r False show ?thesis
      by (simp add: generate_speech_def)
  qed
qed

text \<open>
  The generator on \<open>N\<close> segments when every line prints: \<open>N\<close> files without combining,
  one file with combining.
\<close>

lemma generate_speech_separate:
  assumes "console_print L (speech_voice_line v) = None"
    and "pipeline tx v = Inr segments"
    and "\<forall>i < length segments.
           console_print L (segment_line i (length segments) (fst (segments ! i))
                              (fst (snd (segments ! i)))) = None
           \<and> console_print L (saved_line (segment_file d p i)) = None"
  shows "generate_speech L pipeline d tx v p True False =
           (map (\<lambda>i. \<lparr>w_path = segment_file d p i, w_data = snd (snd (segments ! i)),
                      w_rate = 24000\<rparr>) [0..<length segments],
            Inr (map (segment_file d p) [0..<length segments]))"
proof -
  let ?loop = "segment_loop L d p True False (length segments) (enumerate 0 segments) ([], [], [])"
  have "\<forall>x \<in> set (enumerate 0 segments).
          console_print L (segment_line (fst x) (length segments) (fst (snd x))
                             (fst (snd (snd x)))) = None
          \<and> console_print L (saved_line (segment_file d p (fst x))) = None"
    using assms(3) by (auto simp: in_set_enumerate_eq)
  then have "snd ?loop = None"
    by (intro segment_loop_prints) simp
  then obtain st where loop: "?loop = (st, None)"
    by (cases ?loop) auto
  from segment_loop_returns [OF loop] have
    "st = (map (segment_file d p) [0..<length segments],
           map (\<lambda>s. snd (snd s)) segments,
           map (\<lambda>i. \<lparr>w_path = segment_file d p i, w_data = snd (snd (segments ! i)),
                      w_rate = 24000\<rparr>) [0..<length segments])"
    by (simp add: map_audio_enumerate map_file_enumerate map_write_enumerate)
  with assms(1,2) loop show ?thesis
    by (simp add: generate_speech_def)
qed

lemma generate_speech_combined:
  assumes "console_print L (speech_voice_line v) = None"
    and "pipeline tx v = Inr segments" and "segments \<noteq> []"
    and "\<forall>i < length segments.
           console_print L (segment_line i (length segments) (fst (segments ! i))
                              (fst (snd (segments ! i)))) = None"
    and "console_print L (combined_line (combined_file d p)) = None"
  shows "generate_speech L pipeline d tx v p True True =
           ([\<lparr>w_path = combined_file d p, w_data = concat (map (\<lambda>s. snd (snd s)) segments),
              w_rate = 24000\<rparr>],
            Inr [combined_file d p])"
proof -
  let ?loop = "segment_loop L d p True True (length segments) (enumerate 0 segments) ([], [], [])"
  have ret: "?loop = (st, None) \<Longrightarrow> st = ([], map (\<lambda>s. snd (snd s)) segments, [])" for st
    using segment_loop_returns [of L d p True True "length segments" "enumerate 0 segments"
        "[]" "[]" "[]" st]
    by (simp add: map_audio_enumerate)
  have "\<forall>x \<in> set (enumerate 0 segments).
          console_print L (segment_line (fst x) (length segments) (fst (snd x))
                             (fst (snd (snd x)))) = None"
    using assms(4) by (auto simp: in_set_enumerate_eq)
  then have "snd ?loop = None"
    by (intro segment_loop_prints) simp
  then obtain st where loop: "?loop = (st, None)"
    by (cases ?loop) auto
  with ret have "st = ([], map (\<lambda>s. snd (snd s)) segments, [])"
    by simp
  with assms(1,2,3,5) loop show ?thesis
    by (simp add: generate_speech_def Let_def)
qed

section \<open>Properties of the voice comparison\<close>

lemma compare_voice_silent:
  assumes "console_print L (processing_voice_line v) = None"
    and "console_print L (speech_voice_line v) = None"
    and "engine run tx v = Inr []"
  shows "compare_voice L d s tx run v =
           (([\<lparr>voice = v, result_file = str ''Failed'', size_mb = 0, duration_min = 0,
               generation_time = t_end run - t_start run, success = False\<rparr>], []), None)"
  using assms
    generate_speech_no_segments [of L v "engine run" tx d "s @ str ''_'' @ v" True True]
  by (simp add: compare_voice_def voice_try_def)

lemma compare_voice_raises:
  assumes "console_print L (processing_voice_line v) = None"
    and "console_print L (speech_voice_line v) = None"
    and "engine run tx v = Inl e" and "is_Exception e"
    and "console_print L (error_line e) = None"
  shows "compare_voice L d s tx run v = (([error_result v], []), None)"
  using assms
    generate_speech_raises [of L v "engine run" tx e d "s @ str ''_'' @ v" True True]
  by (simp add: compare_voice_def voice_try_def)

section \<open>Properties of the chapter audio loop\<close>

lemma processed_append: "processed (xs @ ys) = processed xs @ processed ys"
  by (induction xs rule: processed.induct) simp_all

lemma reported_failed_append:
  "reported_failed (xs @ ys) = reported_failed xs @ reported_failed ys"
  by (induction xs rule: reported_failed.induct) simp_all

text \<open>
  A turn that raises nothing has announced its chapter and then reported it either as
  generated or as failed, as failed exactly when the engine emitted no segment.
\<close>

lemma chapter_turn_ok:
  assumes "cd n = Some ch" and "snd (chapter_turn L cd d vn cb run n) = None"
  shows "\<exists>m ws. chapter_turn L cd d vn cb run n
                  = (([Processing_chapter n (title ch), m], ws), None)
          \<and> processed [m] = []
          \<and> reported_failed [m] = (if run_silent vn run then [n] else [])"
proof -
  from assms obtain tx where tx: "chapter_file run = Inr tx"
    by (cases "chapter_file run") (simp_all add: chapter_turn_def)
  from assms tx have line: "console_print L (chapter_line n (title ch)) = None"
    by (simp add: chapter_turn_def split: option.splits)
  obtain ws r where gs: "generate_speech L (speech run) d tx vn (filename ch) True cb = (ws, r)"
    by (cases "generate_speech L (speech run) d tx vn (filename ch) True cb")
  from assms tx line gs obtain fs where r: "r = Inr fs"
    by (cases r) (simp_all add: chapter_turn_def)
  from generate_speech_returned [OF gs [unfolded r]] obtain segments where
    seg: "speech run tx vn = Inr segments" and
    fs: "fs = (if cb then (if segments = [] then [] else [combined_file d (filename ch)])
               else map (segment_file d (filename ch)) [0..<length segments])"
    by blast
  from fs have empty: "fs = [] \<longleftrightarrow> segments = []"
    by (cases cb) simp_all
  have silent: "run_silent vn run \<longleftrightarrow> segments = []"
    using tx seg by (simp add: run_silent_def)
  show ?thesis
  proof (cases fs)
    case Nil
    then show ?thesis
      using assms(1) tx line gs r empty silent
      by (intro exI [of _ "Failed_to_generate n"] exI [of _ ws]) (simp add: chapter_turn_def)
  next
    case (Cons f fs')
    with assms tx line gs r have "console_print L (generated_chapter_line f) = None"
      by (cases "console_print L (generated_chapter_line f)") (simp_all add: chapter_turn_def)
    with Cons show ?thesis
      using assms(1) tx line gs r empty silent
      by (intro exI [of _ "Generated f"] exI [of _ ws]) (simp add: chapter_turn_def)
  qed
qed

lemma chapter_turn_silent:
  assumes "cd n = Some ch" and "chapter_file run = Inr tx"
    and "console_print L (chapter_line n (title ch)) = None"
    and "console_print L (speech_voice_line vn) = None"
    and "speech run tx vn = Inr []"
  shows "chapter_turn L cd d vn cb run n
           = (([Processing_chapter n (title ch), Failed_to_generate n], []), None)"
  using assms generate_speech_no_segments [of L vn "speech run" tx d "filename ch" True cb]
  by (simp add: chapter_turn_def)

lemma chapter_turn_raises:
  assumes "cd n = Some ch" and "chapter_file run = Inr tx"
    and "console_print L (chapter_line n (title ch)) = None"
    and "console_print L (speech_voice_line vn) = None"
    and "speech run tx vn = Inl e"
  shows "chapter_turn L cd d vn cb run n = (([Processing_chapter n (title ch)], []), Some e)"
  using assms generate_speech_raises [of L vn "speech run" tx e d "filename ch" True cb]
  by (simp add: chapter_turn_def)

lemma audio_loop_step_ok:
  assumes "cd n = Some ch" and "snd (chapter_turn L cd d vn cb (runs i) n) = None"
  shows "\<exists>m ws. audio_loop L cd d vn cb runs i (n # rest) (out, wr)
                  = audio_loop L cd d vn cb runs (Suc i) rest
                      (out @ [Processing_chapter n (title ch), m], wr @ ws)
          \<and> processed [m] = []
          \<and> reported_failed [m] = (if run_silent vn (runs i) then [n] else [])"
proof -
  from chapter_turn_ok [OF assms] obtain m ws where
    "chapter_turn L cd d vn cb (runs i) n = (([Processing_chapter n (title ch), m], ws), None)"
    "processed [m] = []"
    "reported_failed [m] = (if run_silent vn (runs i) then [n] else [])"
    by blast
  then show ?thesis
    by (intro exI [of _ m] exI [of _ ws]) simp
qed

lemma audio_loop_all_ok:
  assumes "\<forall>n \<in> set cs. cd n \<noteq> None"
    and "\<forall>k < length cs. snd (chapter_turn L cd d vn cb (runs (i + k)) (cs ! k)) = None"
  shows "\<exists>out' wr'. audio_loop L cd d vn cb runs i cs (out, wr) = ((out', wr'), Completed)
           \<and> processed out' = processed out @ cs
           \<and> reported_failed out'
               = reported_failed out
                 @ map fst (filter (\<lambda>x. run_silent vn (runs (snd x))) (zip cs [i..<i + length cs]))"
  using assms
proof (induction cs arbitrary: i out wr)
  case Nil
  then show ?case by simp
next
  case (Cons n cs)
  from Cons.prems(1) obtain ch where ch: "cd n = Some ch"
    by auto
  from Cons.prems(2) have ok: "snd (chapter_turn L cd d vn cb (runs i) n) = None"
    by force
  from ch ok audio_loop_step_ok [of cd n ch L d vn cb runs i cs out wr] obtain m ws where
    step: "audio_loop L cd d vn cb runs i (n # cs) (out, wr)
             = audio_loop L cd d vn cb runs (Suc i) cs
                 (out @ [Processing_chapter n (title ch), m], wr @ ws)"
    and m: "processed [m] = []"
      "reported_failed [m] = (if run_silent vn (runs i) then [n] else [])"
    by blast
  have "\<forall>k < length cs. snd (chapter_turn L cd d vn cb (runs (Suc i + k)) (cs ! k)) = None"
    using Cons.prems(2) by force
  with Cons.IH [of "Suc i" "out @ [Processing_chapter n (title ch), m]" "wr @ ws"] Cons.prems(1)
  obtain out' wr' where
    ih: "audio_loop L cd d vn cb runs (Suc i) cs
           (out @ [Processing_chapter n (title ch), m], wr @ ws) = ((out', wr'), Completed)"
      "processed out' = processed (out @ [Processing_chapter n (title ch), m]) @ cs"
      "reported_failed out'
         = reported_failed (out @ [Processing_chapter n (title ch), m])
           @ map fst (filter (\<lambda>x. run_silent vn (runs (snd x)))
                        (zip cs [Suc i..<Suc i + length cs]))"
    by auto
  have p: "processed (out @ [Processing_chapter n (title ch), m]) = processed out @ [n]"
    using m(1) processed_append [of out "[Processing_chapter n (title ch), m]"] by simp
  have f: "reported_failed (out @ [Processing_chapter n (title ch), m])
             = reported_failed out @ (if run_silent vn (runs i) then [n] else [])"
    using m(2) reported_failed_append [of out "[Processing_chapter n (title ch), m]"] by simp
  have "[i..<i + length (n # cs)] = i # [Suc i..<Suc i + length cs]"
    using upt_conv_Cons [of i "i + length (n # cs)"] by (simp del: upt_Suc)
  then have z: "zip (n # cs) [i..<i + length (n # cs)] = (n, i) # zip cs [Suc i..<Suc i + length cs]"
    by (simp del: upt_Suc)
  show ?case
    using step ih p f z by (simp del: upt_Suc)
qed

lemma audio_loop_raises_at:
  assumes "\<forall>n \<in> set cs. cd n \<noteq> None"
    and "k < length cs"
    and "\<forall>j < k. snd (chapter_turn L cd d vn cb (runs (i + j)) (cs ! j)) = None"
    and "chapter_turn L cd d vn cb (runs (i + k)) (cs ! k)
           = (([Processing_chapter (cs ! k) t], []), Some e)"
  shows "\<exists>out' wr'. audio_loop L cd d vn cb runs i cs (out, wr) = ((out', wr'), Raised e)
           \<and> processed out' = processed out @ take (Suc k) cs"
  using assms
proof (induction cs arbitrary: i k out wr)
  case Nil
  then show ?case by simp
next
  case (Cons n cs)
  from Cons.prems(1) obtain ch where ch: "cd n = Some ch"
    by auto
  show ?case
  proof (cases k)
    case 0
    then show ?thesis
      using Cons.prems(4) by (simp add: processed_append)
  next
    case (Suc k')
    then have ok: "snd (chapter_turn L cd d vn cb (runs i) n) = None"
      using Cons.prems(3) by force
    from ch ok audio_loop_step_ok [of cd n ch L d vn cb runs i cs out wr] obtain m ws where
      step: "audio_loop L cd d vn cb runs i (n # cs) (out, wr)
               = audio_loop L cd d vn cb runs (Suc i) cs
                   (out @ [Processing_chapter n (title ch), m], wr @ ws)"
      and m: "processed [m] = []"
      by blast
    have "\<forall>j < k'. snd (chapter_turn L cd d vn cb (runs (Suc i + j)) (cs ! j)) = None"
      using Cons.prems(3) Suc by force
    moreover have "k' < length cs"
      "chapter_turn L cd d vn cb (runs (Suc i + k')) (cs ! k')
         = (([Processing_chapter (cs ! k') t], []), Some e)"
      using Cons.prems(2,4) Suc by simp_all
    ultimately obtain out' wr' where
      ih: "audio_loop L cd d vn cb runs (Suc i) cs
             (out @ [Processing_chapter n (title ch), m], wr @ ws) = ((out', wr'), Raised e)"
        "processed out' = processed (out @ [Processing_chapter n (title ch), m]) @ take (Suc k') cs"
      using Cons.IH [of k' "Suc i" "out @ [Processing_chapter n (title ch), m]" "wr @ ws"]
        Cons.prems(1) by auto
    have p: "processed (out @ [Processing_chapter n (title ch), m]) = processed out @ [n]"
      using m processed_append [of out "[Processing_chapter n (title ch), m]"] by simp
    show ?thesis
      using step ih p Suc by simp
  qed
qed

lemma generate_audio_valid:
  assumes "\<forall>n \<in> set chapters. chapters_dict toc n \<noteq> None"
    and "console_print L (audio_voice_line (length chapters) vn) = None"
  shows "generate_audio L toc chapters None d vn cb runs
           = audio_loop L (chapters_dict toc) d vn cb runs 0 chapters
               ([Generating_audio (length chapters) vn], [])"
proof -
  have "filter (\<lambda>ch. chapters_dict toc ch = None) chapters = []"
    using assms(1) by (simp add: filter_empty_conv)
  with assms(2) show ?thesis
    by (simp add: generate_audio_def tts_manager_def Let_def)
qed

section \<open>Properties of the saved files\<close>

text \<open>Decimal digits, and reading them back as a number.\<close>

lemma digits_ascii: "list_all ascii_digit (digits n)"
proof (induction n rule: digits.induct)
  case (1 n)
  show ?case
  proof (cases "n < 10")
    case True
    then show ?thesis
      by (simp add: digits.simps [of n] ascii_digit_def)
  next
    case False
    moreover have "n mod 10 < 10"
      by simp
    ultimately show ?thesis
      using 1 by (simp add: digits.simps [of n] ascii_digit_def)
  qed
qed

lemma digits_not_Nil: "digits n \<noteq> []"
  by (simp add: digits.simps [of n])

lemma hd_digits: "hd (digits n) = 48 \<longleftrightarrow> n = 0"
proof (induction n rule: digits.induct)
  case (1 n)
  show ?case
  proof (cases "n < 10")
    case True
    then show ?thesis
      by (simp add: digits.simps [of n])
  next
    case False
    then have "n div 10 \<noteq> 0"
      by simp
    with False 1 show ?thesis
      by (simp add: digits.simps [of n] digits_not_Nil)
  qed
qed

lemma decimal_snoc: "decimal (s @ [c]) = 10 * decimal s + (c - 48)"
  by (simp add: decimal_def)

lemma decimal_digits: "decimal (digits n) = n"
proof (induction n rule: digits.induct)
  case (1 n)
  show ?case
  proof (cases "n < 10")
    case True
    then show ?thesis
      by (simp add: digits.simps [of n] decimal_def)
  next
    case False
    with 1 show ?thesis
      by (simp add: digits.simps [of n] decimal_snoc)
  qed
qed

lemma digits_no_sign: "c \<in> set (digits n) \<Longrightarrow> c \<noteq> 95 \<and> c \<noteq> 43 \<and> c \<noteq> 45"
  using digits_ascii [of n] by (auto simp: list_all_iff ascii_digit_def)

lemma filter_digits: "filter (\<lambda>c. c \<noteq> 95) (digits n) = digits n"
  using digits_no_sign [of _ n] by (simp add: filter_id_conv)

lemma hd_digits_no_sign: "hd (digits n) \<noteq> 43 \<and> hd (digits n) \<noteq> 45"
  using digits_no_sign [of "hd (digits n)" n] digits_not_Nil [of n] by simp

lemma digits_zero_iff: "digits n = [48] \<longleftrightarrow> n = 0"
proof
  assume "digits n = [48]"
  then have "hd (digits n) = 48"
    by simp
  then show "n = 0"
    by (simp add: hd_digits)
next
  assume "n = 0"
  then show "digits n = [48]"
    by (simp add: digits.simps [of 0])
qed

lemma construct_int_format_d: "construct_int Y (format_d 0 n) = Some n"
proof (cases "n < 0")
  case True
  let ?m = "nat (- n)"
  from True have m: "?m \<noteq> 0"
    by simp
  have "format_d 0 n = 45 # digits ?m"
    using True by (simp add: format_d_def zfill_def)
  moreover have "digits ?m \<noteq> [48]" "hd (digits ?m) \<noteq> 48"
    using m by (simp_all add: digits_zero_iff hd_digits)
  ultimately show ?thesis
    using True
    by (simp add: construct_int_def filter_digits digits_not_Nil digits_ascii decimal_digits
        str_def)
next
  case False
  let ?m = "nat n"
  have f: "format_d 0 n = digits ?m"
    using False by (simp add: format_d_def zfill_def)
  show ?thesis
  proof (cases "?m = 0")
    case True
    with False f show ?thesis
      by (simp add: construct_int_def digits.simps [of 0] str_def)
  next
    case m: False
    then have "digits ?m \<noteq> [48]" "hd (digits ?m) \<noteq> 48"
      by (simp_all add: digits_zero_iff hd_digits)
    with False f show ?thesis
      by (simp add: construct_int_def filter_digits digits_not_Nil digits_ascii decimal_digits
          hd_digits_no_sign str_def)
  qed
qed

text \<open>
  A string and an integer are read back as they were written, in whatever style the
  emitter chose.
\<close>

lemma load_emit_str: "yaml_safe_load Y (emit_scalar Y simple_key Tag_str s) = Some (YStr s)"
  by (simp add: emit_scalar_def load_scalar_def)

lemma load_emit_int: "yaml_safe_load Y (emit_scalar Y False Tag_int (format_d 0 n)) = Some (YInt n)"
  by (simp add: emit_scalar_def load_scalar_def construct_int_format_d)

lemma those_map_Some: "those (map Some xs) = Some xs"
  by (induction xs) simp_all

text \<open>
  The entry of a chapter goes through the library as the dictionary of its four items,
  in the order of the keys.
\<close>

lemma load_dump_toc_entry:
  "yaml_safe_load Y (yaml_dump Y (toc_entry ch)) =
     Some (YMap [(str ''filename'', YStr (filename ch)), (str ''number'', YInt (number ch)),
                 (str ''title'', YStr (title ch)), (str ''word_count'', YInt (word_count ch))])"
  by (simp add: toc_entry_def load_emit_str load_emit_int item_of_def dict_of_def str_def)

lemma read_summary_loaded:
  "read_summary
     (YMap [(str ''filename'', YStr (filename ch)), (str ''number'', YInt (number ch)),
            (str ''title'', YStr (title ch)), (str ''word_count'', YInt (word_count ch))])
   = Some (summary_of ch)"
  by (simp add: read_summary_def get_int_def get_str_def get_item_def summary_of_def str_def)

lemma load_dump_toc:
  "yaml_safe_load Y (yaml_dump Y (toc_of chapters)) =
     Some (YMap [(str ''chapters'',
                  YSeq (map (\<lambda>ch. YMap [(str ''filename'', YStr (filename ch)),
                                         (str ''number'', YInt (number ch)),
                                         (str ''title'', YStr (title ch)),
                                         (str ''word_count'', YInt (word_count ch))])
                          chapters))])"
proof -
  let ?entry = "\<lambda>ch :: book_chapter.
                  YMap [(str ''filename'', YStr (filename ch)), (str ''number'', YInt (number ch)),
                        (str ''title'', YStr (title ch)), (str ''word_count'', YInt (word_count ch))]"
  have "map (yaml_safe_load Y) (map (yaml_dump Y) (map toc_entry chapters))
          = map Some (map ?entry chapters)"
    by (simp add: load_dump_toc_entry)
  then have "those (map (yaml_safe_load Y) (map (yaml_dump Y) (map toc_entry chapters)))
          = Some (map ?entry chapters)"
    by (simp only: those_map_Some)
  then have "yaml_safe_load Y (yaml_dump Y (YSeq (map toc_entry chapters)))
          = Some (YSeq (map ?entry chapters))"
    by simp
  then show ?thesis
    by (simp add: toc_of_def load_emit_str item_of_def dict_of_def)
qed

lemma read_toc_loaded:
  "read_toc
     (YMap [(str ''chapters'',
             YSeq (map (\<lambda>ch. YMap [(str ''filename'', YStr (filename ch)),
                                    (str ''number'', YInt (number ch)),
                                    (str ''title'', YStr (title ch)),
                                    (str ''word_count'', YInt (word_count ch))])
                     chapters))])
   = Some (map summary_of chapters)"
proof -
  let ?entry = "\<lambda>ch :: book_chapter.
                  YMap [(str ''filename'', YStr (filename ch)), (str ''number'', YInt (number ch)),
                        (str ''title'', YStr (title ch)), (str ''word_count'', YInt (word_count ch))]"
  have "map read_summary (map ?entry chapters) = map Some (map summary_of chapters)"
    by (simp add: read_summary_loaded)
  then have "those (map read_summary (map ?entry chapters)) = Some (map summary_of chapters)"
    by (simp only: those_map_Some)
  then show ?thesis
    by (simp add: read_toc_def get_item_def)
qed

text \<open>The metadata dictionary goes through the library likewise.\<close>

lemma load_dump_metadata:
  "yaml_safe_load Y (yaml_dump Y (metadata_dict md slug)) =
     Some (YMap [(str ''author'', YStr (md_author md)),
                 (str ''description'', YStr (md_description md)),
                 (str ''language'', YStr (md_language md)),
                 (str ''publisher'', YStr (md_publisher md)),
                 (str ''slug'', YStr slug), (str ''title'', YStr (md_title md))])"
  by (simp add: metadata_dict_def load_emit_str item_of_def dict_of_def str_def)

lemma metadata_path_neq_toc_path: "(d, str ''metadata.yml'') \<noteq> (d, str ''toc.yml'')"
  by (simp add: str_def)

section \<open>The claims\<close>

subsection \<open>Text normalizer\<close>

text \<open>
  C1: the claim is that normalizing \<^verbatim>\<open>"Hello   world\n\n\n\nBye"\<close> gives
  \<^verbatim>\<open>"Hello world\n\nBye"\<close>. The code gives \<^verbatim>\<open>"Hello world Bye"\<close> instead: the first step
  has already turned the blank lines into one space when the paragraph-break step runs.
\<close>

theorem clean_text_hello_world:
  "clean_text U (str ''Hello   world\<newline>\<newline>\<newline>\<newline>Bye'') = str ''Hello world Bye''
   \<and> str ''Hello world Bye'' \<noteq> str ''Hello world\<newline>\<newline>Bye''"
  by (simp add: clean_text_def collapse_whitespace_def remove_page_numbers_def
      clean_paragraph_breaks_def strip_def str_def is_space_def is_nl_def)

text \<open>
  C2: for every input string the page-number step changes nothing: the normalizer
  returns what it returns with that step deleted, because the text that reaches the step
  has no newline left.
\<close>

theorem clean_text_page_step_noop:
  "clean_text U text = clean_text_without_page_step text"
proof -
  have "remove_page_numbers U (collapse_whitespace text) = collapse_whitespace text"
    unfolding remove_page_numbers_def
    by (rule re_sub_one_first_id) (rule collapse_whitespace_no_newline)
  then show ?thesis
    by (simp add: clean_text_def clean_text_without_page_step_def)
qed

subsection \<open>Chapter extractor\<close>

text \<open>
  C3, as amended: for every chapter produced by extraction the filename is the same
  function of the chapter's number and title, and when the number is below 100 and the
  word characters of the title (the characters that \<^verbatim>\<open>\w\<close> matches) are ASCII, the
  filename matches \<^verbatim>\<open>^\d{2}-[a-z0-9_-]*$\<close>: two digits, a hyphen, then only lowercase
  ASCII letters, digits, underscores and hyphens. Whatever else the title holds is
  taken out or turned into a hyphen.
\<close>

theorem extracted_filename_shape:
  assumes "ch \<in> set (extract_chapters U items)"
  shows "filename ch = chapter_filename U (number ch) (title ch)
         \<and> (number ch < 100 \<and> list_all is_ascii (filter (is_word U) (title ch)) \<longrightarrow>
              filename_pattern_underscore (filename ch))"
proof -
  let ?P = "\<lambda>c. 1 \<le> number c \<and> filename c = chapter_filename U (number c) (title c)"
  have "\<forall>c \<in> set (fst (foldl (extract_step U) ([], 1) items)). ?P c"
    by (rule foldl_extract_filenames) simp_all
  then have "?P ch"
    using assms by (simp add: extract_chapters_def)
  then show ?thesis
    using chapter_filename_pattern [of "number ch" U "title ch"] by simp
qed

text \<open>
  The witness: the book of one document headed \<^verbatim>\<open>Don't Panic - Part 2\<close>, written with
  the typographic apostrophe and the long dash, gives chapter 1 with the filename
  \<^verbatim>\<open>01-dont-panic-part-2\<close>.
\<close>

theorem extracted_filename_shape_witness:
  "panic_chapter \<in> set (extract_chapters ascii_db panic_book)
   \<and> number panic_chapter < 100
   \<and> \<not> list_all is_ascii (title panic_chapter)
   \<and> list_all is_ascii (filter (is_word ascii_db) (title panic_chapter))
   \<and> filename panic_chapter
       = chapter_filename ascii_db (number panic_chapter) (title panic_chapter)
   \<and> filename_pattern_underscore (filename panic_chapter)"
proof -
  have a: "panic_chapter \<in> set (extract_chapters ascii_db panic_book)"
    by (simp add: extract_panic_book)
  have b: "number panic_chapter < 100"
    by (simp add: panic_chapter_def)
  have c: "\<not> list_all is_ascii (title panic_chapter)"
    by (simp add: panic_chapter_def panic_title_def str_def is_ascii_def)
  have d: "list_all is_ascii (filter (is_word ascii_db) (title panic_chapter))"
    by (simp add: panic_chapter_def panic_title_def str_def is_ascii_def is_word_def
        ascii_db_def ascii_digit_def ascii_upper_def ascii_lower_def)
  show ?thesis
    using a b c d extracted_filename_shape [OF a] by blast
qed

text \<open>
  The counterexample to C3 as it was stated: the book of one document headed \<^verbatim>\<open>a_b\<close>
  gives the filename \<^verbatim>\<open>01-a_b\<close>, and the underscore is outside \<^verbatim>\<open>[a-z0-9-]\<close>.
\<close>

theorem underscore_filename_counterexample:
  "map filename (extract_chapters ascii_db underscore_book) = [str ''01-a_b'']
   \<and> \<not> filename_pattern (str ''01-a_b'')"
  by (simp add: extract_underscore_book underscore_chapter_def)
     (simp add: filename_pattern_def str_def ascii_digit_def ascii_lower_def is_hyphen_def)

text \<open>
  C4: when exactly \<open>K\<close> of the items are documents with non-whitespace text, extraction
  returns exactly \<open>K\<close> chapters and their numbers are \<open>1, 2, \<dots>, K\<close> in order; an item
  without such text adds no chapter and leaves the counter as it is.
\<close>

theorem extracted_numbers_dense:
  "map number (extract_chapters U items) = [1..int (length (filter has_text items))]
   \<and> length (extract_chapters U items) = length (filter has_text items)
   \<and> (\<not> has_text item \<longrightarrow>
        extract_step U (chapters, chapter_num) item = (chapters, chapter_num))"
proof -
  have eq: "map number (extract_chapters U items) = [1..int (length (filter has_text items))]"
    using foldl_extract_numbers [of U "[]" 1 items] by (simp add: extract_chapters_def)
  have "length (extract_chapters U items) = length (map number (extract_chapters U items))"
    by simp
  also have "\<dots> = length (filter has_text items)"
    by (simp add: eq)
  finally show ?thesis
    using eq by (simp add: extract_step_skip)
qed

text \<open>
  The specification's scenario: three document units, the middle one blank, give two
  chapters numbered 1 and 2.
\<close>

theorem extracted_numbers_dense_witness:
  "map number (extract_chapters ascii_db (underscore_book @ [blank_item] @ underscore_book))
     = [1, 2]
   \<and> length (extract_chapters ascii_db (underscore_book @ [blank_item] @ underscore_book)) = 2
   \<and> \<not> has_text blank_item
   \<and> extract_step ascii_db ([underscore_chapter], 2) blank_item = ([underscore_chapter], 2)"
proof -
  have "length (filter has_text (underscore_book @ [blank_item] @ underscore_book)) = 2"
    by (simp add: has_text_def underscore_book_def blank_item_def strip_def str_def is_space_def)
  moreover have "[1..2] = [1, 2::int]"
    by (simp add: upto_rec1)
  moreover have "\<not> has_text blank_item"
    by (simp add: has_text_def blank_item_def strip_def str_def is_space_def)
  ultimately show ?thesis
    using extracted_numbers_dense [of ascii_db "underscore_book @ [blank_item] @ underscore_book"
        blank_item "[underscore_chapter]" 2]
    by simp
qed

subsection \<open>Speech segment generator\<close>

text \<open>
  C5: the claim is that a call without combining on which the engine emits \<open>N\<close>
  segments writes and returns \<open>N\<close> files. The code prints the text of each segment
  before it keeps the segment, and the console reads square brackets in that text as
  markup. On the two segments \<^verbatim>\<open>Hi\<close> and \<^verbatim>\<open>[/b]\<close>, with the prefix \<^verbatim>\<open>ch01\<close>, the code
  writes \<^verbatim>\<open>ch01_000.wav\<close> only and then raises the console's error, whatever the style
  table of the console: one file written for two segments, and no list returned.
\<close>

theorem generate_speech_markup_segment:
  "markup_engine (str ''Hi [/b]'') (str ''af_heart'')
     = Inr [(str ''Hi'', str ''hI'', [1, 2]), (str ''[/b]'', str ''b'', [3])]
   \<and> generate_speech L markup_engine (str ''out'') (str ''Hi [/b]'') (str ''af_heart'')
        (str ''ch01'') True False
     = ([\<lparr>w_path = (str ''out'', str ''ch01_000.wav''), w_data = [1, 2], w_rate = 24000\<rparr>],
        Inl (MarkupError (str ''closing tag '' @ [39] @ str ''[/b]'' @ [39]
               @ str '' at position 16 doesn't match any open tag'')))"
  by (simp add: generate_speech_def markup_engine_def markup_segments_def enumerate_eq_zip
      segment_file_def format_d_3_small line_defs console_eval)

subsection \<open>Voice comparison\<close>

text \<open>
  C6: the claim is that a comparison over \<open>V\<close> checked voices gives \<open>V\<close> entries, a
  failure of one voice never keeping the later voices from being generated. The
  handler of the loop prints the error before it appends the entry, and the console
  reads square brackets in the message as markup. With the voices \<^verbatim>\<open>af_heart\<close>,
  \<^verbatim>\<open>af_sarah\<close> and \<^verbatim>\<open>af_bella\<close>, when the engine fails on the second voice with the message
  \<^verbatim>\<open>cannot open [/dev/snd]\<close>, the console's error leaves the handler and ends the command:
  \<^verbatim>\<open>results\<close> holds the entry of the first voice only, and nothing is generated for the
  third. Likewise a text that holds \<^verbatim>\<open>[/]\<close> ends the command at the preview of the text,
  before any voice is tried: the tag closes the style of the preview, whose own closing
  tag then closes nothing.
\<close>

theorem compare_markup_in_error:
  "compare L (str ''notes.txt'') (Some (Inr (str ''Hello'')))
     [str ''af_heart'', str ''af_sarah'', str ''af_bella''] False None
     (str ''voice_comparisons/notes'') (str ''notes'')
     (\<lambda>i. if i = 1 then device_run else steady_run)
   = (([\<lparr>voice = str ''af_heart'', result_file = str ''notes_af_heart.wav'', size_mb = 2,
          duration_min = 1 / 20, generation_time = 4, success = True\<rparr>],
       [\<lparr>w_path = (str ''voice_comparisons/notes'', str ''notes_af_heart.wav''),
          w_data = [1, 2, 3], w_rate = 24000\<rparr>]),
      Raised (MarkupError (str ''closing tag '' @ [39] @ str ''[/dev/snd]'' @ [39]
                @ str '' at position 24 doesn't match any open tag'')))
   \<and> compare L (str ''notes.txt'') (Some (Inr (str ''see [/] here''))) [str ''af_heart''] False
       None (str ''voice_comparisons/notes'') (str ''notes'') (\<lambda>i. steady_run)
   = (([], []),
      Raised (MarkupError (str ''closing tag '' @ [39] @ str ''[/dim]'' @ [39]
                @ str '' at position 17 doesn't match any open tag'')))"
proof -
  have first: "compare_voice L (str ''voice_comparisons/notes'') (str ''notes'') (str ''Hello'')
                 steady_run (str ''af_heart'')
               = (([\<lparr>voice = str ''af_heart'', result_file = str ''notes_af_heart.wav'',
                      size_mb = 2, duration_min = 1 / 20, generation_time = 4,
                      success = True\<rparr>],
                   [\<lparr>w_path = (str ''voice_comparisons/notes'', str ''notes_af_heart.wav''),
                      w_data = [1, 2, 3], w_rate = 24000\<rparr>]), None)"
    by (simp add: compare_voice_def voice_try_def generate_speech_def steady_run_def
        steady_engine_def two_segments_def enumerate_eq_zip combined_file_def line_defs
        console_eval)
  have second: "compare_voice L (str ''voice_comparisons/notes'') (str ''notes'') (str ''Hello'')
                  device_run (str ''af_sarah'')
                = (([], []),
                   Some (MarkupError (str ''closing tag '' @ [39] @ str ''[/dev/snd]'' @ [39]
                           @ str '' at position 24 doesn't match any open tag'')))"
    by (simp add: compare_voice_def voice_try_def generate_speech_def device_run_def
        device_engine_def line_defs console_eval)
  have before: "print_all L [text_file_line (str ''notes.txt''),
                  voices_line [str ''af_heart'', str ''af_sarah'', str ''af_bella''],
                  preview_line (str ''Hello''),
                  output_dir_line (str ''voice_comparisons/notes'')] = None"
    by (simp add: line_defs console_eval)
  have voices: "voices_to_test False [str ''af_heart'', str ''af_sarah'', str ''af_bella'']
                  = Inr [str ''af_heart'', str ''af_sarah'', str ''af_bella'']"
    "voices_to_test False [str ''af_heart''] = Inr [str ''af_heart'']"
    by (simp_all add: voices_to_test_def AVAILABLE_VOICES_def str_def)
  have texts: "strip (str ''Hello'') = str ''Hello''"
    "strip (str ''see [/] here'') = str ''see [/] here''"
    "str ''Hello'' \<noteq> []" "str ''see [/] here'' \<noteq> []"
    by (simp_all add: strip_def str_def is_space_def)
  have preview: "print_all L [text_file_line (str ''notes.txt''),
                   voices_line [str ''af_heart''], preview_line (str ''see [/] here''),
                   output_dir_line (str ''voice_comparisons/notes'')]
                 = Some (MarkupError (str ''closing tag '' @ [39] @ str ''[/dim]'' @ [39]
                           @ str '' at position 17 doesn't match any open tag''))"
    by (simp add: line_defs console_eval)
  have a: "compare L (str ''notes.txt'') (Some (Inr (str ''Hello'')))
     [str ''af_heart'', str ''af_sarah'', str ''af_bella''] False None
     (str ''voice_comparisons/notes'') (str ''notes'')
     (\<lambda>i. if i = 1 then device_run else steady_run)
   = (([\<lparr>voice = str ''af_heart'', result_file = str ''notes_af_heart.wav'', size_mb = 2,
          duration_min = 1 / 20, generation_time = 4, success = True\<rparr>],
       [\<lparr>w_path = (str ''voice_comparisons/notes'', str ''notes_af_heart.wav''),
          w_data = [1, 2, 3], w_rate = 24000\<rparr>]),
      Raised (MarkupError (str ''closing tag '' @ [39] @ str ''[/dev/snd]'' @ [39]
                @ str '' at position 24 doesn't match any open tag'')))"
    by (simp add: compare_def Let_def voices texts before first second tts_manager_def
        del: print_all.simps)
  have b: "compare L (str ''notes.txt'') (Some (Inr (str ''see [/] here''))) [str ''af_heart'']
       False None (str ''voice_comparisons/notes'') (str ''notes'') (\<lambda>i. steady_run)
   = (([], []),
      Raised (MarkupError (str ''closing tag '' @ [39] @ str ''[/dim]'' @ [39]
                @ str '' at position 17 doesn't match any open tag'')))"
    by (simp add: compare_def Let_def voices texts preview del: print_all.simps)
  from a b show ?thesis ..
qed

text \<open>
  C7, as amended: on a turn whose lines print, when the generator returns an empty
  result for a voice, the entry of that voice has size and duration zero and keeps the
  time elapsed between the two clock readings; when the engine raises an error whose
  line prints, the entry has size, duration and generation time all zero.
\<close>

theorem compare_failure_entries:
  assumes "console_print L (processing_voice_line v) = None"
    and "console_print L (speech_voice_line v) = None"
  shows "(engine run tx v = Inr [] \<longrightarrow>
            compare_voice L d s tx run v =
              (([\<lparr>voice = v, result_file = str ''Failed'', size_mb = 0, duration_min = 0,
                  generation_time = t_end run - t_start run, success = False\<rparr>], []), None))
         \<and> (engine run tx v = Inl e \<and> is_Exception e \<and> console_print L (error_line e) = None \<longrightarrow>
            compare_voice L d s tx run v =
              (([\<lparr>voice = v, result_file = str ''Error'', size_mb = 0, duration_min = 0,
                  generation_time = 0, success = False\<rparr>], []), None))"
  using assms compare_voice_silent [of L v run tx d s] compare_voice_raises [of L v run tx e d s]
  by (simp add: error_result_def)

text \<open>
  The witness: a turn of three seconds on which the engine emits nothing, and a turn of
  five seconds on which it raises.
\<close>

theorem compare_failure_entries_witness:
  "console_print plain_console (processing_voice_line (str ''af_sarah'')) = None
   \<and> console_print plain_console (speech_voice_line (str ''af_sarah'')) = None
   \<and> engine silent_run (str ''Hello'') (str ''af_sarah'') = Inr []
   \<and> compare_voice plain_console (str ''out'') (str ''demo'') (str ''Hello'') silent_run
        (str ''af_sarah'')
       = (([\<lparr>voice = str ''af_sarah'', result_file = str ''Failed'', size_mb = 0,
             duration_min = 0, generation_time = 3, success = False\<rparr>], []), None)
   \<and> engine raising_run (str ''Hello'') (str ''af_sarah'') = Inl (Exception (str ''boom''))
   \<and> is_Exception (Exception (str ''boom''))
   \<and> console_print plain_console (error_line (Exception (str ''boom''))) = None
   \<and> compare_voice plain_console (str ''out'') (str ''demo'') (str ''Hello'') raising_run
        (str ''af_sarah'')
       = (([\<lparr>voice = str ''af_sarah'', result_file = str ''Error'', size_mb = 0,
             duration_min = 0, generation_time = 0, success = False\<rparr>], []), None)"
proof -
  have p: "console_print plain_console (processing_voice_line (str ''af_sarah'')) = None"
    "console_print plain_console (speech_voice_line (str ''af_sarah'')) = None"
    "console_print plain_console (error_line (Exception (str ''boom''))) = None"
    by (simp_all add: line_defs console_eval)
  have a: "engine silent_run (str ''Hello'') (str ''af_sarah'') = Inr []"
    by (simp add: silent_run_def silent_engine_def)
  have b: "engine raising_run (str ''Hello'') (str ''af_sarah'') = Inl (Exception (str ''boom''))"
    by (simp add: raising_run_def broken_engine_def)
  have c: "t_end silent_run - t_start silent_run = 3"
    by (simp add: silent_run_def)
  show ?thesis
    using a b c p
      compare_failure_entries [OF p(1,2), of silent_run "str ''Hello''" "str ''out''"
        "str ''demo''" "Exception (str ''boom'')"]
      compare_failure_entries [OF p(1,2), of raising_run "str ''Hello''" "str ''out''"
        "str ''demo''" "Exception (str ''boom'')"]
    by simp
qed

text \<open>
  The counterexample to C7 as it was stated: the engine raises five seconds after the
  start of the turn, and the one entry recorded for the voice has a generation time of
  zero.
\<close>

theorem raising_voice_counterexample:
  "engine raising_run (str ''Hello'') (str ''af_sarah'') = Inl (Exception (str ''boom''))
   \<and> t_end raising_run - t_start raising_run = 5
   \<and> map generation_time
        (fst (fst (compare_voice plain_console (str ''out'') (str ''demo'') (str ''Hello'')
                     raising_run (str ''af_sarah'')))) = [0]"
  by (simp add: compare_voice_def voice_try_def generate_speech_def raising_run_def
      broken_engine_def error_result_def line_defs console_eval)

text \<open>
  C10: when the generator has returned a produced file and its size can be read, but
  reading the file back for its duration fails, the entry of the voice is recorded as a
  success with a duration of zero minutes. It is the first entry of the turn, and the
  only one when the line that reports the file prints; otherwise the handler's error
  entry may follow it.
\<close>

theorem compare_unreadable_file_success:
  assumes "console_print L (processing_voice_line v) = None"
    and "generate_speech L (engine run) d tx v (s @ str ''_'' @ v) True True = (ws, Inr (f # fs))"
    and "stat_size run = Inr st_size" and "sf_read run = Inl e"
  shows "(\<exists>rest. fst (fst (compare_voice L d s tx run v)) =
            \<lparr>voice = v, result_file = s @ str ''_'' @ v @ str ''.wav'',
             size_mb = real_of_int st_size / (1024 * 1024), duration_min = 0,
             generation_time = t_end run - t_start run, success = True\<rparr> # rest
            \<and> (rest = [] \<or> rest = [error_result v]))
         \<and> (console_print L (generated_line (s @ str ''_'' @ v @ str ''.wav'')) = None \<longrightarrow>
              compare_voice L d s tx run v =
                (([\<lparr>voice = v, result_file = s @ str ''_'' @ v @ str ''.wav'',
                    size_mb = real_of_int st_size / (1024 * 1024), duration_min = 0,
                    generation_time = t_end run - t_start run, success = True\<rparr>], ws), None))"
proof -
  from generate_speech_returned [OF assms(2)] have "f # fs = [combined_file d (s @ str ''_'' @ v)]"
    by (auto split: if_splits)
  then have f: "snd f = s @ str ''_'' @ v @ str ''.wav''"
    by (auto simp: combined_file_def)
  let ?entry = "\<lparr>voice = v, result_file = s @ str ''_'' @ v @ str ''.wav'',
                 size_mb = real_of_int st_size / (1024 * 1024), duration_min = 0,
                 generation_time = t_end run - t_start run, success = True\<rparr>"
  have body: "voice_try L d s tx run v
               = (([?entry], ws), console_print L (generated_line (s @ str ''_'' @ v @ str ''.wav'')))"
    using assms(2,3,4) f by (simp add: voice_try_def Let_def)
  show ?thesis
  proof (cases "console_print L (generated_line (s @ str ''_'' @ v @ str ''.wav''))")
    case None
    with body assms(1) show ?thesis
      by (simp add: compare_voice_def)
  next
    case (Some e')
    with body assms(1) show ?thesis
      by (cases "console_print L (error_line e')") (simp_all add: compare_voice_def)
  qed
qed

theorem compare_unreadable_file_success_witness:
  "console_print plain_console (processing_voice_line (str ''af_bella'')) = None
   \<and> generate_speech plain_console (engine unreadable_run) (str ''out'') (str ''Hello'')
        (str ''af_bella'') (str ''demo'' @ str ''_'' @ str ''af_bella'') True True
       = ([\<lparr>w_path = (str ''out'', str ''demo_af_bella.wav''), w_data = [1, 2, 3],
            w_rate = 24000\<rparr>], Inr [(str ''out'', str ''demo_af_bella.wav'')])
   \<and> stat_size unreadable_run = Inr 1048576
   \<and> sf_read unreadable_run = Inl (Exception (str ''LibsndfileError''))
   \<and> console_print plain_console (generated_line (str ''demo_af_bella.wav'')) = None
   \<and> compare_voice plain_console (str ''out'') (str ''demo'') (str ''Hello'') unreadable_run
        (str ''af_bella'')
       = (([\<lparr>voice = str ''af_bella'', result_file = str ''demo_af_bella.wav'', size_mb = 1,
             duration_min = 0, generation_time = 7, success = True\<rparr>],
           [\<lparr>w_path = (str ''out'', str ''demo_af_bella.wav''), w_data = [1, 2, 3],
             w_rate = 24000\<rparr>]), None)"
proof -
  have a: "console_print plain_console (processing_voice_line (str ''af_bella'')) = None"
    by (simp add: line_defs console_eval)
  have b: "generate_speech plain_console (engine unreadable_run) (str ''out'') (str ''Hello'')
        (str ''af_bella'') (str ''demo'' @ str ''_'' @ str ''af_bella'') True True
       = ([\<lparr>w_path = (str ''out'', str ''demo_af_bella.wav''), w_data = [1, 2, 3],
            w_rate = 24000\<rparr>], Inr [(str ''out'', str ''demo_af_bella.wav'')])"
    by (simp add: generate_speech_def unreadable_run_def steady_engine_def two_segments_def
        enumerate_eq_zip combined_file_def line_defs console_eval)
  have c: "stat_size unreadable_run = Inr 1048576"
    by (simp add: unreadable_run_def)
  have d: "sf_read unreadable_run = Inl (Exception (str ''LibsndfileError''))"
    by (simp add: unreadable_run_def)
  have e: "t_end unreadable_run - t_start unreadable_run = 7"
    by (simp add: unreadable_run_def)
  have g: "console_print plain_console (generated_line (str ''demo_af_bella.wav'')) = None"
    by (simp add: line_defs console_eval)
  have h: "str ''demo'' @ str ''_'' @ str ''af_bella'' @ str ''.wav'' = str ''demo_af_bella.wav''"
    by (simp add: str_def)
  show ?thesis
    using a b c d e g h
      compare_unreadable_file_success [OF a b c d]
    by simp
qed

subsection \<open>Audio for chapters\<close>

text \<open>
  C8, as amended: for requested chapters that are all in the table of contents and an
  engine that started, a chapter for which the engine emits no segment is reported as
  failed and its turn raises nothing; when no turn raises, the command runs to its end,
  every requested chapter is processed in the order of the request, and the chapters
  reported as failed are exactly those for which the engine emitted no segment; when the
  engine raises on turn \<open>k\<close>, after turns that raised nothing, the exception ends the
  command there, and the chapters processed are the first \<open>k + 1\<close> of the request only.
  The lines named in the statement are taken to print.
\<close>

theorem generate_audio_failures:
  assumes "\<forall>n \<in> set chapters. chapters_dict toc n \<noteq> None"
    and "console_print L (audio_voice_line (length chapters) vn) = None"
  shows "(chapters_dict toc n = Some ch \<and> chapter_file run = Inr tx
            \<and> console_print L (chapter_line n (title ch)) = None
            \<and> console_print L (speech_voice_line vn) = None
            \<and> speech run tx vn = Inr [] \<longrightarrow>
            chapter_turn L (chapters_dict toc) d vn cb run n
              = (([Processing_chapter n (title ch), Failed_to_generate n], []), None))
         \<and> ((\<forall>k < length chapters. turn_error L toc d vn cb (runs k) (chapters ! k) = None) \<longrightarrow>
            (\<exists>out written.
               generate_audio L toc chapters None d vn cb runs = ((out, written), Completed)
               \<and> processed out = chapters
               \<and> reported_failed out
                   = map fst (filter (\<lambda>x. run_silent vn (runs (snd x)))
                                (zip chapters [0..<length chapters]))))
         \<and> (k < length chapters
              \<and> (\<forall>j < k. turn_error L toc d vn cb (runs j) (chapters ! j) = None)
              \<and> chapters_dict toc (chapters ! k) = Some ch'
              \<and> chapter_file (runs k) = Inr tx'
              \<and> console_print L (chapter_line (chapters ! k) (title ch')) = None
              \<and> console_print L (speech_voice_line vn) = None
              \<and> speech (runs k) tx' vn = Inl e \<longrightarrow>
            (\<exists>out written.
               generate_audio L toc chapters None d vn cb runs = ((out, written), Raised e)
               \<and> processed out = take (Suc k) chapters))"
proof (intro conjI impI)
  assume "chapters_dict toc n = Some ch \<and> chapter_file run = Inr tx
            \<and> console_print L (chapter_line n (title ch)) = None
            \<and> console_print L (speech_voice_line vn) = None
            \<and> speech run tx vn = Inr []"
  then show "chapter_turn L (chapters_dict toc) d vn cb run n
              = (([Processing_chapter n (title ch), Failed_to_generate n], []), None)"
    using chapter_turn_silent [of "chapters_dict toc" n ch run tx L vn d cb] by simp
next
  assume "\<forall>k < length chapters. turn_error L toc d vn cb (runs k) (chapters ! k) = None"
  then show "\<exists>out written.
               generate_audio L toc chapters None d vn cb runs = ((out, written), Completed)
               \<and> processed out = chapters
               \<and> reported_failed out
                   = map fst (filter (\<lambda>x. run_silent vn (runs (snd x)))
                                (zip chapters [0..<length chapters]))"
    using audio_loop_all_ok [of chapters "chapters_dict toc" L d vn cb runs 0
        "[Generating_audio (length chapters) vn]" "[]"] assms
    by (simp add: generate_audio_valid turn_error_def)
next
  assume k: "k < length chapters
              \<and> (\<forall>j < k. turn_error L toc d vn cb (runs j) (chapters ! j) = None)
              \<and> chapters_dict toc (chapters ! k) = Some ch'
              \<and> chapter_file (runs k) = Inr tx'
              \<and> console_print L (chapter_line (chapters ! k) (title ch')) = None
              \<and> console_print L (speech_voice_line vn) = None
              \<and> speech (runs k) tx' vn = Inl e"
  then have "chapter_turn L (chapters_dict toc) d vn cb (runs k) (chapters ! k)
               = (([Processing_chapter (chapters ! k) (title ch')], []), Some e)"
    using chapter_turn_raises [of "chapters_dict toc" "chapters ! k" ch' "runs k" tx' L vn e d cb]
    by simp
  with k show "\<exists>out written.
               generate_audio L toc chapters None d vn cb runs = ((out, written), Raised e)
               \<and> processed out = take (Suc k) chapters"
    using audio_loop_raises_at [of chapters "chapters_dict toc" k L d vn cb runs 0 "title ch'" e
        "[Generating_audio (length chapters) vn]" "[]"] assms
    by (simp add: generate_audio_valid turn_error_def)
qed

text \<open>
  The witness: chapters 1 and 2, first with an engine that is silent on chapter 1 and
  speaks on chapter 2, then with an engine that raises.
\<close>

theorem generate_audio_failures_witness:
  "chapter_turn plain_console (chapters_dict sample_toc) (str ''out'') (str ''af_heart'') True
       (silent_then_steady 0) 1
     = (([Processing_chapter 1 (str ''One''), Failed_to_generate 1], []), None)
   \<and> (\<exists>out written.
      generate_audio plain_console sample_toc [1, 2] None (str ''out'') (str ''af_heart'') True
          silent_then_steady
        = ((out, written), Completed)
      \<and> processed out = [1, 2] \<and> reported_failed out = [1])
   \<and> (\<exists>out written.
      generate_audio plain_console sample_toc [1, 2] None (str ''out'') (str ''af_heart'') True
          broken_chapter_runs
        = ((out, written), Raised (Exception (str ''boom'')))
      \<and> processed out = [1])"
proof -
  let ?one = "\<lparr>number = 1, title = str ''One'', filename = str ''01-one'', word_count = 2\<rparr>"
  have valid: "\<forall>n \<in> set [1, 2]. chapters_dict sample_toc n \<noteq> None"
    by (simp add: chapters_dict_def sample_toc_def)
  have line: "console_print plain_console (audio_voice_line (length [1, 2 :: int])
                (str ''af_heart'')) = None"
    by (simp add: line_defs console_eval)
  have one: "chapters_dict sample_toc 1 = Some ?one"
    by (simp add: chapters_dict_def sample_toc_def)
  have prints: "console_print plain_console (chapter_line 1 (title ?one)) = None"
    "console_print plain_console (speech_voice_line (str ''af_heart'')) = None"
    by (simp_all add: format_d_0_small line_defs console_eval)
  have t0: "turn_error plain_console sample_toc (str ''out'') (str ''af_heart'') True
              (silent_then_steady 0) 1 = None"
    using one prints
    by (simp add: turn_error_def chapter_turn_def generate_speech_def silent_then_steady_def
        silent_engine_def)
  have t1: "turn_error plain_console sample_toc (str ''out'') (str ''af_heart'') True
              (silent_then_steady 1) 2 = None"
    by (simp add: turn_error_def chapter_turn_def generate_speech_def silent_then_steady_def
        steady_engine_def two_segments_def chapters_dict_def sample_toc_def enumerate_eq_zip
        combined_file_def format_d_0_small line_defs console_eval)
  have ok: "\<forall>k < length [1, 2 :: int].
              turn_error plain_console sample_toc (str ''out'') (str ''af_heart'') True
                (silent_then_steady k) ([1, 2] ! k) = None"
  proof (intro allI impI)
    fix k :: nat
    assume "k < length [1, 2 :: int]"
    then have "k = 0 \<or> k = 1"
      by auto
    then show "turn_error plain_console sample_toc (str ''out'') (str ''af_heart'') True
                 (silent_then_steady k) ([1, 2] ! k) = None"
      using t0 t1 by auto
  qed
  have sel: "map fst (filter (\<lambda>x. run_silent (str ''af_heart'') (silent_then_steady (snd x)))
                        (zip [1, 2 :: int] [0..<length [1, 2 :: int]])) = [1]"
    by (simp add: run_silent_def silent_then_steady_def silent_engine_def steady_engine_def
        two_segments_def upt_conv_Cons)
  have silent: "chapters_dict sample_toc 1 = Some ?one
      \<and> chapter_file (silent_then_steady 0) = Inr (str ''# One'')
      \<and> console_print plain_console (chapter_line 1 (title ?one)) = None
      \<and> console_print plain_console (speech_voice_line (str ''af_heart'')) = None
      \<and> speech (silent_then_steady 0) (str ''# One'') (str ''af_heart'') = Inr []"
    using one prints by (simp add: silent_then_steady_def silent_engine_def)
  have bad: "0 < length [1, 2 :: int]
      \<and> (\<forall>j < 0. turn_error plain_console sample_toc (str ''out'') (str ''af_heart'') True
                     (broken_chapter_runs j) ([1, 2] ! j) = None)
      \<and> chapters_dict sample_toc ([1, 2] ! 0) = Some ?one
      \<and> chapter_file (broken_chapter_runs 0) = Inr (str ''# One'')
      \<and> console_print plain_console (chapter_line ([1, 2] ! 0) (title ?one)) = None
      \<and> console_print plain_console (speech_voice_line (str ''af_heart'')) = None
      \<and> speech (broken_chapter_runs 0) (str ''# One'') (str ''af_heart'')
          = Inl (Exception (str ''boom''))"
    using one prints by (simp add: broken_chapter_runs_def broken_engine_def)
  have a: "chapter_turn plain_console (chapters_dict sample_toc) (str ''out'') (str ''af_heart'')
               True (silent_then_steady 0) 1
             = (([Processing_chapter 1 (str ''One''), Failed_to_generate 1], []), None)
      \<and> (\<exists>out written.
      generate_audio plain_console sample_toc [1, 2] None (str ''out'') (str ''af_heart'') True
          silent_then_steady
        = ((out, written), Completed)
      \<and> processed out = [1, 2] \<and> reported_failed out = [1])"
    using generate_audio_failures [OF valid line, of 1 ?one "silent_then_steady 0"
        "str ''# One''" "str ''out''" True silent_then_steady 0 ?one "[]" "Exception []"]
      ok sel silent
    by simp
  have b: "\<exists>out written.
      generate_audio plain_console sample_toc [1, 2] None (str ''out'') (str ''af_heart'') True
          broken_chapter_runs
        = ((out, written), Raised (Exception (str ''boom'')))
      \<and> processed out = [1]"
    using generate_audio_failures [OF valid line, of 1 ?one "broken_chapter_runs 0"
        "str ''# One''" "str ''out''" True broken_chapter_runs 0 ?one "str ''# One''"
        "Exception (str ''boom'')"] bad
    by simp
  from a b show ?thesis
    by blast
qed

text \<open>
  The counterexample to C8 as it was stated: chapters 1 and 2 are requested and the
  engine raises on chapter 1; the command ends with that exception, and chapter 2 is
  never processed.
\<close>

theorem raising_chapter_counterexample:
  "generate_audio plain_console sample_toc [1, 2] None (str ''out'') (str ''af_heart'') True
       broken_chapter_runs
     = (([Generating_audio 2 (str ''af_heart''), Processing_chapter 1 (str ''One'')], []),
        Raised (Exception (str ''boom'')))
   \<and> processed [Generating_audio 2 (str ''af_heart''), Processing_chapter 1 (str ''One'')] = [1]"
  by (simp add: generate_audio_def tts_manager_def chapter_turn_def chapters_dict_def
      sample_toc_def broken_chapter_runs_def broken_engine_def generate_speech_def
      format_d_0_small line_defs console_eval)

subsection \<open>Saved metadata\<close>

text \<open>
  C9: for every metadata record, slug and chapter list, and whatever the tables of the
  YAML library, after \<^verbatim>\<open>save_metadata\<close> the file \<^verbatim>\<open>metadata.yml\<close> reads back to the title,
  author, language, publisher, description and slug that were saved, and the file
  \<^verbatim>\<open>toc.yml\<close> reads back to the number, title, filename and word count of every chapter,
  in the order of the chapters.
\<close>

theorem save_metadata_roundtrip:
  "load_metadata Y (save_metadata Y book_dir (metadata_dict md slug) chapters fs) book_dir
     = Some (md, slug)
   \<and> load_toc Y (save_metadata Y book_dir (metadata_dict md slug) chapters fs) book_dir
     = Some (map summary_of chapters)"
proof -
  let ?fs = "save_metadata Y book_dir (metadata_dict md slug) chapters fs"
  have m: "?fs (book_dir, str ''metadata.yml'') = Some (yaml_dump Y (metadata_dict md slug))"
    using metadata_path_neq_toc_path [of book_dir] by (simp add: save_metadata_def Let_def)
  have t: "?fs (book_dir, str ''toc.yml'') = Some (yaml_dump Y (toc_of chapters))"
    by (simp add: save_metadata_def Let_def)
  have "load_metadata Y ?fs book_dir = Some (md, slug)"
    unfolding load_metadata_def load_yaml_def m
    by (simp add: load_dump_metadata get_str_def get_item_def str_def)
  moreover have "load_toc Y ?fs book_dir = Some (map summary_of chapters)"
    unfolding load_toc_def load_yaml_def t
    by (simp add: load_dump_toc read_toc_loaded)
  ultimately show ?thesis ..
qed

text \<open>
  An instance: two chapters whose titles are the texts \<^verbatim>\<open>10\<close> and \<^verbatim>\<open>null\<close>, which the
  library writes in quotes because it would read them plain as a number and as \<^verbatim>\<open>None\<close>.
\<close>

theorem save_metadata_roundtrip_witness:
  "yaml_dump sample_yaml (YStr (title ten_chapter)) = Scalar None False (str ''10'')
   \<and> yaml_dump sample_yaml (YStr (title null_chapter)) = Scalar None False (str ''null'')
   \<and> load_metadata sample_yaml
        (save_metadata sample_yaml (str ''books/t'') (metadata_dict sample_md (str ''t''))
           [ten_chapter, null_chapter] Map.empty) (str ''books/t'')
       = Some (sample_md, str ''t'')
   \<and> load_toc sample_yaml
        (save_metadata sample_yaml (str ''books/t'') (metadata_dict sample_md (str ''t''))
           [ten_chapter, null_chapter] Map.empty) (str ''books/t'')
       = Some [\<lparr>number = 1, title = str ''10'', filename = str ''01-10'', word_count = 2\<rparr>,
               \<lparr>number = 2, title = str ''null'', filename = str ''02-null'', word_count = 0\<rparr>]"
proof -
  have a: "yaml_dump sample_yaml (YStr (title ten_chapter)) = Scalar None False (str ''10'')"
    "yaml_dump sample_yaml (YStr (title null_chapter)) = Scalar None False (str ''null'')"
    by (simp_all add: emit_scalar_def sample_yaml_def ten_chapter_def null_chapter_def
        ascii_digit_def str_def)
  have b: "map summary_of [ten_chapter, null_chapter]
             = [\<lparr>number = 1, title = str ''10'', filename = str ''01-10'', word_count = 2\<rparr>,
                \<lparr>number = 2, title = str ''null'', filename = str ''02-null'', word_count = 0\<rparr>]"
    by (simp add: summary_of_def ten_chapter_def null_chapter_def)
  show ?thesis
    using a b
      save_metadata_roundtrip [of sample_yaml "str ''books/t''" sample_md "str ''t''"
        "[ten_chapter, null_chapter]" Map.empty]
    by simp
qed

end
